theory Spec2Isabelle
  imports Main
begin

section \<open>Python values and the library helpers the handlers call\<close>

text \<open>
  The three handlers of the repository (\<^verbatim>\<open>validator/handler.py\<close>,
  \<^verbatim>\<open>processor/handler.py\<close> and the monolithic
  \<^verbatim>\<open>validator_processor/handler.py\<close>) are embedded as functions that pass an
  explicit \<open>world\<close>: the DynamoDB jobs table, the S3 objects, the SQS queue.
  A Python value that is either a string or \<^verbatim>\<open>None\<close> is a \<open>pyval\<close>.
\<close>

datatype pyval = PyNone | Str string

fun truthy :: "pyval \<Rightarrow> bool" where
  "truthy PyNone = False"
| "truthy (Str s) = (s \<noteq> [])"

definition py_not :: "pyval \<Rightarrow> bool" where
  "py_not v = (\<not> truthy v)"

text \<open>How an f-string prints the value.\<close>

fun py_str :: "pyval \<Rightarrow> string" where
  "py_str PyNone = ''None''"
| "py_str (Str s) = s"

text \<open>\<^verbatim>\<open>str(n)\<close> of an integer, in decimal.\<close>

definition digit_char :: "nat \<Rightarrow> char" where
  "digit_char d = ''0123456789'' ! (d mod 10)"

fun str_nat :: "nat \<Rightarrow> string" where
  "str_nat n = (if n < 10 then [digit_char n] else str_nat (n div 10) @ [digit_char (n mod 10)])"

declare str_nat.simps [simp del]

definition str_int :: "int \<Rightarrow> string" where
  "str_int i = (if i < 0 then CHR ''-'' # str_nat (nat (- i)) else str_nat (nat i))"

text \<open>
  \<^verbatim>\<open>f"{missing}"\<close> prints a list of strings the way \<^verbatim>\<open>repr\<close> does:
  \<^verbatim>\<open>['id', 'value']\<close>. The handlers only print sublists of
  \<^verbatim>\<open>REQUIRED_COLUMNS\<close>, whose elements need no escaping.
\<close>

fun join :: "string \<Rightarrow> string list \<Rightarrow> string" where
  "join sep [] = []"
| "join sep [x] = x"
| "join sep (x # y # ys) = x @ sep @ join sep (y # ys)"

definition py_repr_list :: "string list \<Rightarrow> string" where
  "py_repr_list xs = ''['' @ join '', '' (map (\<lambda>s. CHR 0x27 # s @ [CHR 0x27]) xs) @ '']''"

text \<open>
  \<^verbatim>\<open>os.path.basename\<close> (everything after the last slash) and the first component of
  \<^verbatim>\<open>os.path.splitext\<close>: the path is cut at its last dot when that dot lies in the
  last path component and some character other than a dot stands before it there.
\<close>

definition basename :: "string \<Rightarrow> string" where
  "basename p = rev (takeWhile (\<lambda>c. c \<noteq> CHR ''/'') (rev p))"

definition splitext_root :: "string \<Rightarrow> string" where
  "splitext_root p =
     (let name = basename p;
          dir = take (length p - length name) p;
          stem = rev (drop (Suc (length (takeWhile (\<lambda>c. c \<noteq> CHR ''.'') (rev name)))) (rev name))
      in if CHR ''.'' \<in> set name \<and> list_ex (\<lambda>c. c \<noteq> CHR ''.'') stem then dir @ stem else p)"

text \<open>The job identifier both upload-triggered handlers derive from the object key.\<close>

definition job_id_of_key :: "string \<Rightarrow> string" where
  "job_id_of_key k = splitext_root (basename k)"

definition REQUIRED_COLUMNS :: "string list" where
  "REQUIRED_COLUMNS = [''id'', ''value'', ''timestamp'']"


section \<open>The external services\<close>

text \<open>
  A DynamoDB attribute value is a string, a number or \<^verbatim>\<open>NULL\<close> (what boto3 stores
  for \<^verbatim>\<open>None\<close>); an item maps attribute names to values, and the jobs table maps a
  \<^verbatim>\<open>jobId\<close> to its item. \<^verbatim>\<open>put_item\<close> replaces the whole item,
  \<^verbatim>\<open>update_item\<close> with a \<^verbatim>\<open>SET\<close> expression assigns the named attributes
  and keeps the others, creating the item when the key is new.
\<close>

datatype attr = S string | N int | NULL

type_synonym item = "string \<rightharpoonup> attr"

datatype table_write =
    PutItem string "(string \<times> attr) list"
  | UpdateItem string "(string \<times> attr) list"

definition set_attrs :: "(string \<times> attr) list \<Rightarrow> item \<Rightarrow> item" where
  "set_attrs kvs it = fold (\<lambda>kv m. m(fst kv \<mapsto> snd kv)) kvs it"

fun apply_write :: "(string \<rightharpoonup> item) \<Rightarrow> table_write \<Rightarrow> (string \<rightharpoonup> item)" where
  "apply_write t (PutItem j kvs) = t(j \<mapsto> set_attrs kvs Map.empty)"
| "apply_write t (UpdateItem j kvs) =
     t(j \<mapsto> set_attrs kvs (case t j of None \<Rightarrow> [''jobId'' \<mapsto> S j] | Some it \<Rightarrow> it))"

text \<open>
  An S3 object either yields its decoded text, or reading it raises (access denied, a body
  that is not UTF-8); \<open>Unreadable e\<close> carries the exception's text. A key with no
  object raises as well.
\<close>

datatype s3_object = Content string | Unreadable string

record queue_message =
  msg_jobId :: string
  msg_bucket :: string
  msg_key :: string

text \<open>
  Each service call of the handlers can raise. Reads of S3 fail per object (above); for the
  writes the world lists the services that are out for the whole invocation.
  \<open>table_log\<close> records the writes the jobs table accepted, oldest first.
\<close>

datatype service = StatusStore | ObjectWrite | Queue

record world =
  table :: "string \<rightharpoonup> item"
  objects :: "string \<times> string \<rightharpoonup> s3_object"
  queue :: "queue_message list"
  outage :: "service set"
  table_log :: "table_write list"

definition write_table :: "world \<Rightarrow> table_write \<Rightarrow> string + world" where
  "write_table w wr =
     (if StatusStore \<in> outage w then Inl ''status store unavailable''
      else Inr (w\<lparr>table := apply_write (table w) wr, table_log := table_log w @ [wr]\<rparr>))"

definition put_item :: "world \<Rightarrow> string \<Rightarrow> (string \<times> attr) list \<Rightarrow> string + world" where
  "put_item w j kvs = write_table w (PutItem j kvs)"

definition update_item :: "world \<Rightarrow> string \<Rightarrow> (string \<times> attr) list \<Rightarrow> string + world" where
  "update_item w j kvs = write_table w (UpdateItem j kvs)"

definition get_object :: "world \<Rightarrow> string \<Rightarrow> string \<Rightarrow> string + string" where
  "get_object w b k =
     (case objects w (b, k) of
        None \<Rightarrow> Inl ''NoSuchKey''
      | Some (Unreadable e) \<Rightarrow> Inl e
      | Some (Content c) \<Rightarrow> Inr c)"

definition put_object :: "world \<Rightarrow> string \<Rightarrow> string \<Rightarrow> string \<Rightarrow> string + world" where
  "put_object w b k body =
     (if ObjectWrite \<in> outage w then Inl ''object store rejects the write''
      else Inr (w\<lparr>objects := (objects w)((b, k) \<mapsto> Content body)\<rparr>))"

definition send_message :: "world \<Rightarrow> queue_message \<Rightarrow> string + world" where
  "send_message w m =
     (if Queue \<in> outage w then Inl ''queue unavailable''
      else Inr (w\<lparr>queue := queue w @ [m]\<rparr>))"

text \<open>
  The Python library functions whose behaviour the handlers do not fix are parameters:
  \<open>csv_reader\<close> is \<^verbatim>\<open>csv.reader(io.StringIO(text))\<close>, giving the rows it yields
  and, when it then raises \<^verbatim>\<open>csv.Error\<close>, the exception's text;
  \<open>json_dumps indent\<close> is \<^verbatim>\<open>json.dumps\<close> on a list of records;
  \<open>unquote_plus\<close> is \<^verbatim>\<open>urllib.parse.unquote_plus\<close>; \<open>PROCESSED_PREFIX\<close> is the
  environment variable of that name.
\<close>

record env =
  csv_reader :: "string \<Rightarrow> string list list \<times> string option"
  json_dumps :: "nat option \<Rightarrow> (string \<times> pyval) list list \<Rightarrow> string"
  unquote_plus :: "string \<Rightarrow> string"
  PROCESSED_PREFIX :: string

section \<open>csv.DictReader\<close>

text \<open>
  \<open>fieldnames\<close> is the first row the reader yields (\<^verbatim>\<open>None\<close> when there is none);
  every later row that is not empty becomes a dictionary: the field names zipped with the
  row, and \<^verbatim>\<open>None\<close> for the field names a short row does not reach.
\<close>

definition fieldnames :: "string list list \<times> string option \<Rightarrow> string + string list option" where
  "fieldnames reader =
     (case fst reader of
        r # _ \<Rightarrow> Inr (Some r)
      | [] \<Rightarrow> (case snd reader of None \<Rightarrow> Inr None | Some e \<Rightarrow> Inl e))"

definition row_dict :: "string list \<Rightarrow> string list \<Rightarrow> (string \<rightharpoonup> pyval)" where
  "row_dict fns r =
     fold (\<lambda>k d. d(k \<mapsto> PyNone)) (drop (length r) fns)
       (fold (\<lambda>kv d. d(fst kv \<mapsto> Str (snd kv))) (zip fns r) Map.empty)"

definition dict_rows :: "string list list \<times> string option \<Rightarrow> (string \<rightharpoonup> pyval) list" where
  "dict_rows reader =
     (case fst reader of
        [] \<Rightarrow> []
      | fns # rest \<Rightarrow> map (row_dict fns) (filter (\<lambda>r. r \<noteq> []) rest))"

text \<open>\<^verbatim>\<open>row.get(col)\<close>.\<close>

definition dict_get :: "(string \<rightharpoonup> pyval) \<Rightarrow> string \<Rightarrow> pyval" where
  "dict_get d k = (case d k of None \<Rightarrow> PyNone | Some v \<Rightarrow> v)"

datatype 'a outcome = Returned 'a | Raised string

record s3_record =
  bucket_name :: "string option"
  object_key :: "string option"

section \<open>validator/handler.py\<close>

text \<open>
  The upload event is the list under \<^verbatim>\<open>"Records"\<close>; a record carries the bucket name
  and the object key when the event has them. \<open>now n\<close> is what the \<open>n\<close>-th call of
  \<^verbatim>\<open>get_timestamp\<close> in this invocation returns. The handler's result is the
  dictionary it returns or the exception it lets escape, with the world it leaves.
\<close>

definition validator_handler ::
  "env \<Rightarrow> (nat \<Rightarrow> string) \<Rightarrow> world \<Rightarrow> s3_record list \<Rightarrow> (string \<times> attr) list outcome \<times> world" where
  "validator_handler E now w event =
     (case event of
        [] \<Rightarrow> (Raised ''IndexError'', w)
      | rec # _ \<Rightarrow>
     (case bucket_name rec of
        None \<Rightarrow> (Raised ''KeyError'', w)
      | Some bucket \<Rightarrow>
     (case object_key rec of
        None \<Rightarrow> (Raised ''KeyError'', w)
      | Some key \<Rightarrow>
        let job_id = job_id_of_key key in
        (case put_item w job_id
                [(''jobId'', S job_id),
                 (''status'', S ''VALIDATING''),
                 (''s3Source'', S (''s3://'' @ bucket @ ''/'' @ key)),
                 (''startedAt'', S (now 0)),
                 (''message'', S ''Validating CSV structure'')] of
           Inl e \<Rightarrow> (Raised e, w)
         | Inr w1 \<Rightarrow>
        (case get_object w1 bucket key of
           Inl e \<Rightarrow>
             (case update_item w1 job_id
                     [(''status'', S ''FAILED''),
                      (''message'', S (''Could not read file: '' @ e)),
                      (''finishedAt'', S (now 1))] of
                Inl e' \<Rightarrow> (Raised e', w1)
              | Inr w2 \<Rightarrow> (Returned [(''status'', S ''failed''), (''jobId'', S job_id)], w2))
         | Inr content \<Rightarrow>
        (case fieldnames (csv_reader E content) of
           Inl e \<Rightarrow> (Raised e, w1)
         | Inr fns \<Rightarrow>
             let headers = (case fns of None \<Rightarrow> [] | Some h \<Rightarrow> h);
                 missing = filter (\<lambda>col. col \<notin> set headers) REQUIRED_COLUMNS
             in if missing \<noteq> [] then
                  (case update_item w1 job_id
                          [(''status'', S ''FAILED''),
                           (''message'', S (''Missing required columns: '' @ py_repr_list missing)),
                           (''finishedAt'', S (now 1))] of
                     Inl e' \<Rightarrow> (Raised e', w1)
                   | Inr w2 \<Rightarrow> (Returned [(''status'', S ''failed''), (''jobId'', S job_id)], w2))
                else
                  (case send_message w1 \<lparr>msg_jobId = job_id, msg_bucket = bucket, msg_key = key\<rparr> of
                     Inl e \<Rightarrow> (Raised e, w1)
                   | Inr w2 \<Rightarrow>
                  (case update_item w2 job_id
                          [(''status'', S ''PENDING''),
                           (''message'', S ''Queued for processing'')] of
                     Inl e \<Rightarrow> (Raised e, w2)
                   | Inr w3 \<Rightarrow> (Returned [(''status'', S ''ok''), (''jobId'', S job_id)], w3)))))))))"

section \<open>processor/handler.py\<close>

text \<open>
  The loop over the rows: a row whose three required fields are all truthy is appended to
  \<^verbatim>\<open>records\<close> (reading \<^verbatim>\<open>row["id"]\<close> raises \<^verbatim>\<open>KeyError\<close> on a missing key),
  any other row is counted in \<^verbatim>\<open>error_count\<close>.
\<close>

fun convert_rows ::
  "(string \<rightharpoonup> pyval) list \<Rightarrow> (string \<times> pyval) list list \<Rightarrow> int \<Rightarrow>
     string + (string \<times> pyval) list list \<times> int" where
  "convert_rows [] records error_count = Inr (records, error_count)"
| "convert_rows (row # rows) records error_count =
     (if list_all (\<lambda>col. truthy (dict_get row col)) REQUIRED_COLUMNS then
        (case row ''id'' of
           None \<Rightarrow> Inl ''KeyError''
         | Some i \<Rightarrow>
        (case row ''value'' of
           None \<Rightarrow> Inl ''KeyError''
         | Some v \<Rightarrow>
        (case row ''timestamp'' of
           None \<Rightarrow> Inl ''KeyError''
         | Some t \<Rightarrow>
             convert_rows rows (records @ [[(''id'', i), (''value'', v), (''timestamp'', t)]]) error_count)))
      else convert_rows rows records (error_count + 1))"

text \<open>
  The queue event is the list under \<^verbatim>\<open>"Records"\<close>, each record's body already parsed
  into the message \<^verbatim>\<open>{jobId, bucket, key}\<close> the Validator sent.
\<close>

definition processor_handler ::
  "env \<Rightarrow> (nat \<Rightarrow> string) \<Rightarrow> world \<Rightarrow> queue_message list \<Rightarrow> (string \<times> attr) list outcome \<times> world" where
  "processor_handler E now w event =
     (case event of
        [] \<Rightarrow> (Raised ''IndexError'', w)
      | message # _ \<Rightarrow>
        let job_id = msg_jobId message;
            bucket = msg_bucket message;
            key = msg_key message
        in
        (case update_item w job_id
                [(''status'', S ''PROCESSING''),
                 (''message'', S ''Converting CSV to JSON'')] of
           Inl e \<Rightarrow> (Raised e, w)
         | Inr w1 \<Rightarrow>
        (case get_object w1 bucket key of
           Inl e \<Rightarrow>
             (case update_item w1 job_id
                     [(''status'', S ''FAILED''),
                      (''message'', S (''Could not read file: '' @ e)),
                      (''finishedAt'', S (now 0))] of
                Inl e' \<Rightarrow> (Raised e', w1)
              | Inr w2 \<Rightarrow> (Raised e, w2))
         | Inr content \<Rightarrow>
             let reader = csv_reader E content in
        (case convert_rows (dict_rows reader) [] 0 of
           Inl e \<Rightarrow> (Raised e, w1)
         | Inr (records, error_count) \<Rightarrow>
        (case snd reader of
           Some e \<Rightarrow> (Raised e, w1)
         | None \<Rightarrow>
             let row_count = int (length records) + error_count;
                 output_key = PROCESSED_PREFIX E @ job_id @ ''/output.json''
             in
        (case put_object w1 bucket output_key (json_dumps E (Some 2) records) of
           Inl e \<Rightarrow> (Raised e, w1)
         | Inr w2 \<Rightarrow>
             let status = ''COMPLETED'';
                 message = ''Processed '' @ str_int row_count @ '' rows'' @
                   (if error_count > 0 then '' ('' @ str_int error_count @ '' errors)'' else [])
             in
        (case update_item w2 job_id
                [(''status'', S status),
                 (''message'', S message),
                 (''rowCount'', N row_count),
                 (''errorCount'', N error_count),
                 (''s3OutputPrefix'', S (PROCESSED_PREFIX E @ job_id @ ''/'')),
                 (''finishedAt'', S (now 0))] of
           Inl e \<Rightarrow> (Raised e, w2)
         | Inr w3 \<Rightarrow>
             (Returned [(''status'', S ''ok''), (''jobId'', S job_id), (''rowCount'', N row_count)],
              w3))))))))"

section \<open>validator_processor/handler.py\<close>

record vp_result =
  res_ok :: bool
  res_message :: string
  res_row_count :: int
  res_error_count :: int
  res_records :: "(string \<times> pyval) list list"

text \<open>The loop of \<^verbatim>\<open>validate_and_process_csv\<close> over the rows.\<close>

fun scan_rows ::
  "(string \<rightharpoonup> pyval) list \<Rightarrow> (string \<times> pyval) list list \<Rightarrow> int \<Rightarrow> int \<Rightarrow>
     (string \<times> pyval) list list \<times> int \<times> int" where
  "scan_rows [] valid_records row_count error_count = (valid_records, row_count, error_count)"
| "scan_rows (row # rows) valid_records row_count error_count =
     (if py_not (dict_get row ''id'') \<or> py_not (dict_get row ''value'') \<or>
         py_not (dict_get row ''timestamp'')
      then scan_rows rows valid_records (row_count + 1) (error_count + 1)
      else scan_rows rows
             (valid_records @
                [[(''id'', dict_get row ''id''), (''value'', dict_get row ''value''),
                  (''timestamp'', dict_get row ''timestamp'')]])
             (row_count + 1) error_count)"

definition validate_and_process_csv :: "env \<Rightarrow> string \<Rightarrow> string + vp_result" where
  "validate_and_process_csv E body_text =
     (let reader = csv_reader E body_text in
      case fieldnames reader of
        Inl e \<Rightarrow> Inl e
      | Inr fns \<Rightarrow>
          let header = (case fns of None \<Rightarrow> [] | Some h \<Rightarrow> h);
              missing = filter (\<lambda>c. c \<notin> set header) REQUIRED_COLUMNS
          in if missing \<noteq> [] then
               Inr \<lparr>res_ok = False,
                    res_message = ''Missing required columns: '' @ py_repr_list missing,
                    res_row_count = 0, res_error_count = 0, res_records = []\<rparr>
             else
               (case scan_rows (dict_rows reader) [] 0 0 of
                  (valid_records, row_count, error_count) \<Rightarrow>
                    (case snd reader of
                       Some e \<Rightarrow> Inl e
                     | None \<Rightarrow>
                         Inr \<lparr>res_ok = True, res_message = ''Processed'',
                              res_row_count = row_count, res_error_count = error_count,
                              res_records = valid_records\<rparr>)))"

text \<open>
  Lines 83 to 95 of the handler: bucket, key and \<^verbatim>\<open>s3_source\<close> from the event; any
  exception on the way (no record, no key to unquote) leaves all three \<^verbatim>\<open>None\<close>.
\<close>

definition extract_s3 :: "env \<Rightarrow> s3_record list \<Rightarrow> pyval \<times> pyval \<times> pyval" where
  "extract_s3 E event =
     (case event of
        [] \<Rightarrow> (PyNone, PyNone, PyNone)
      | rec # _ \<Rightarrow>
          (case object_key rec of
             None \<Rightarrow> (PyNone, PyNone, PyNone)
           | Some k \<Rightarrow>
               let bucket = (case bucket_name rec of None \<Rightarrow> PyNone | Some b \<Rightarrow> Str b);
                   key = unquote_plus E k
               in (bucket, Str key, Str (''s3://'' @ py_str bucket @ ''/'' @ key))))"

fun attr_of :: "pyval \<Rightarrow> attr" where
  "attr_of PyNone = NULL"
| "attr_of (Str s) = S s"

text \<open>
  \<^verbatim>\<open>update_job_record\<close> builds a \<^verbatim>\<open>SET\<close> expression that assigns every entry of
  \<^verbatim>\<open>updates\<close>; \<^verbatim>\<open>write_job_record\<close> is \<^verbatim>\<open>put_item\<close>.
\<close>

definition update_job_record :: "world \<Rightarrow> string \<Rightarrow> (string \<times> attr) list \<Rightarrow> string + world" where
  "update_job_record w job_id updates = update_item w job_id updates"

definition write_job_record :: "world \<Rightarrow> string \<Rightarrow> (string \<times> attr) list \<Rightarrow> string + world" where
  "write_job_record w job_id job_item = put_item w job_id job_item"

text \<open>
  \<open>uuid4\<close> is what \<^verbatim>\<open>str(uuid.uuid4())\<close> returns in this invocation. The last
  \<^verbatim>\<open>try\<close> block is \<open>write_output\<close>: the output object when there are valid records, then
  the update of the job; it gives the world after both, or the exception, the world reached
  and the index of the next \<^verbatim>\<open>now_iso\<close> call (the update's dictionary is built, clock
  read included, before the update can fail).
\<close>

definition write_output ::
  "env \<Rightarrow> (nat \<Rightarrow> string) \<Rightarrow> world \<Rightarrow> string \<Rightarrow> string \<Rightarrow> vp_result \<Rightarrow>
     string \<times> world \<times> nat + world" where
  "write_output E now w1 bucket job_id result =
     (let output_prefix = PROCESSED_PREFIX E @ job_id @ ''/'';
          output_key = output_prefix @ ''output.json''
      in
      case (if res_row_count result > 0 \<and> length (res_records result) > 0
            then put_object w1 bucket output_key (json_dumps E None (res_records result))
            else Inr w1) of
        Inl e \<Rightarrow> Inl (e, w1, 1)
      | Inr w2 \<Rightarrow>
          let status = (if res_error_count result = 0 then ''COMPLETED''
                        else ''COMPLETED_WITH_ERRORS'')
          in
          (case update_job_record w2 job_id
                  [(''status'', S status),
                   (''s3OutputPrefix'', S output_prefix),
                   (''rowCount'', N (res_row_count result)),
                   (''errorCount'', N (res_error_count result)),
                   (''finishedAt'', S (now 1)),
                   (''message'', S (res_message result))] of
             Inl e \<Rightarrow> Inl (e, w2, 2)
           | Inr w3 \<Rightarrow> Inr w3))"

definition validator_processor_handler ::
  "env \<Rightarrow> (nat \<Rightarrow> string) \<Rightarrow> string \<Rightarrow> world \<Rightarrow> s3_record list \<Rightarrow>
     (string \<times> attr) list outcome \<times> world" where
  "validator_processor_handler E now uuid4 w event =
     (let started_at = now 0;
          extracted = extract_s3 E event;
          bucket = fst extracted;
          key = fst (snd extracted);
          s3_source = snd (snd extracted);
          job_id = (if truthy key then job_id_of_key (py_str key) else uuid4);
          job_item =
            [(''jobId'', S job_id),
             (''status'', S ''VALIDATING''),
             (''s3Source'', attr_of s3_source),
             (''s3OutputPrefix'', NULL),
             (''rowCount'', N 0),
             (''errorCount'', N 0),
             (''startedAt'', S started_at),
             (''finishedAt'', NULL),
             (''message'', S [])]
      in
     (case write_job_record w job_id job_item of
        Inl e \<Rightarrow>
          (Returned [(''status'', S ''error''),
                     (''message'', S (''Failed to write initial job record: '' @ e))], w)
      | Inr w1 \<Rightarrow>
      if py_not bucket \<or> py_not key then
        (case update_job_record w1 job_id
                [(''status'', S ''FAILED''),
                 (''finishedAt'', S (now 1)),
                 (''message'', S ''Invalid S3 event payload'')] of
           Inl e \<Rightarrow> (Raised e, w1)
         | Inr w2 \<Rightarrow> (Returned [(''status'', S ''failed''), (''jobId'', S job_id)], w2))
      else
      (case get_object w1 (py_str bucket) (py_str key) of
         Inl e \<Rightarrow>
           (case update_job_record w1 job_id
                   [(''status'', S ''FAILED''),
                    (''finishedAt'', S (now 1)),
                    (''message'', S (''Failed to read S3 object: '' @ e))] of
              Inl e' \<Rightarrow> (Raised e', w1)
            | Inr w2 \<Rightarrow> (Returned [(''status'', S ''failed''), (''jobId'', S job_id)], w2))
       | Inr body \<Rightarrow>
      (case validate_and_process_csv E body of
         Inl e \<Rightarrow>
           (case update_job_record w1 job_id
                   [(''status'', S ''FAILED''),
                    (''finishedAt'', S (now 1)),
                    (''message'', S (''Processing error: '' @ e))] of
              Inl e' \<Rightarrow> (Raised e', w1)
            | Inr w2 \<Rightarrow> (Returned [(''status'', S ''failed''), (''jobId'', S job_id)], w2))
       | Inr result \<Rightarrow>
      (case write_output E now w1 (py_str bucket) job_id result of
         Inl (e, wx, n) \<Rightarrow>
           (case update_job_record wx job_id
                   [(''status'', S ''FAILED''),
                    (''finishedAt'', S (now n)),
                    (''message'', S (''Failed to write processed output or update job: '' @ e))] of
              Inl e' \<Rightarrow> (Raised e', wx)
            | Inr w2 \<Rightarrow> (Returned [(''status'', S ''failed''), (''jobId'', S job_id)], w2))
       | Inr w3 \<Rightarrow>
           (Returned [(''status'', S ''ok''), (''jobId'', S job_id),
                      (''rowCount'', N (res_row_count result)),
                      (''errorCount'', N (res_error_count result))], w3))))))"

section \<open>Reading job records and writes\<close>

text \<open>An attribute of the record of job \<open>j\<close>, if the table holds it.\<close>

definition job_attr :: "world \<Rightarrow> string \<Rightarrow> string \<Rightarrow> attr option" where
  "job_attr w j a = (case table w j of None \<Rightarrow> None | Some it \<Rightarrow> it a)"

fun non_null :: "attr option \<Rightarrow> bool" where
  "non_null None = False"
| "non_null (Some NULL) = False"
| "non_null (Some (S s)) = True"
| "non_null (Some (N n)) = True"

definition terminal :: "attr option \<Rightarrow> bool" where
  "terminal st = (st = Some (S ''FAILED'') \<or> st = Some (S ''COMPLETED'') \<or>
                  st = Some (S ''COMPLETED_WITH_ERRORS''))"

definition successful :: "attr option \<Rightarrow> bool" where
  "successful st = (st = Some (S ''COMPLETED'') \<or> st = Some (S ''COMPLETED_WITH_ERRORS''))"

text \<open>The world after the jobs table has accepted a list of writes.\<close>

definition commit :: "world \<Rightarrow> table_write list \<Rightarrow> world" where
  "commit w ws = w\<lparr>table := foldl apply_write (table w) ws, table_log := table_log w @ ws\<rparr>"

text \<open>What a write assigns to an attribute, and the job it addresses.\<close>

fun written :: "table_write \<Rightarrow> string \<Rightarrow> attr option" where
  "written (PutItem j kvs) a = set_attrs kvs Map.empty a"
| "written (UpdateItem j kvs) a = set_attrs kvs Map.empty a"

fun write_job :: "table_write \<Rightarrow> string" where
  "write_job (PutItem j kvs) = j"
| "write_job (UpdateItem j kvs) = j"

text \<open>
  The writes one invocation added to the log; and the property that only the last of a
  list of writes assigns a terminal status.
\<close>

definition new_writes :: "world \<Rightarrow> world \<Rightarrow> table_write list" where
  "new_writes w w' = drop (length (table_log w)) (table_log w')"

fun terminal_last :: "table_write list \<Rightarrow> bool" where
  "terminal_last [] = True"
| "terminal_last [wr] = True"
| "terminal_last (wr # wr' # wrs) = ((\<not> terminal (written wr ''status'')) \<and> terminal_last (wr' # wrs))"

text \<open>
  The two invariants the specification states for a job record: \<open>finishedAt\<close> is set
  exactly when the status is terminal, and the output prefix exactly when the status is a
  successful terminal one.
\<close>

definition finished_iff_terminal :: "world \<Rightarrow> string \<Rightarrow> bool" where
  "finished_iff_terminal w j =
     (non_null (job_attr w j ''finishedAt'') = terminal (job_attr w j ''status''))"

definition prefix_iff_successful :: "world \<Rightarrow> string \<Rightarrow> bool" where
  "prefix_iff_successful w j =
     (non_null (job_attr w j ''s3OutputPrefix'') = successful (job_attr w j ''status''))"

text \<open>A row the specification calls valid, and the record made of it.\<close>

fun present :: "pyval option \<Rightarrow> bool" where
  "present None = False"
| "present (Some PyNone) = False"
| "present (Some (Str s)) = (s \<noteq> [])"

definition valid_row :: "(string \<rightharpoonup> pyval) \<Rightarrow> bool" where
  "valid_row row = (present (row ''id'') \<and> present (row ''value'') \<and> present (row ''timestamp''))"

definition record_of :: "(string \<rightharpoonup> pyval) \<Rightarrow> (string \<times> pyval) list" where
  "record_of row =
     [(''id'', dict_get row ''id''), (''value'', dict_get row ''value''),
      (''timestamp'', dict_get row ''timestamp'')]"

definition converted :: "env \<Rightarrow> string \<Rightarrow> (string \<times> pyval) list list" where
  "converted E content = map record_of (filter valid_row (dict_rows (csv_reader E content)))"

definition invalid_count :: "env \<Rightarrow> string \<Rightarrow> int" where
  "invalid_count E content =
     int (length (filter (\<lambda>r. \<not> valid_row r) (dict_rows (csv_reader E content))))"

section \<open>Names for what the handlers write\<close>

text \<open>
  The attribute lists of the handlers' writes, named so that the lemmas about the paths
  through a handler can state the world it leaves.
\<close>

definition missing_columns :: "string list option \<Rightarrow> string list" where
  "missing_columns fns =
     filter (\<lambda>col. col \<notin> set (case fns of None \<Rightarrow> [] | Some h \<Rightarrow> h)) REQUIRED_COLUMNS"

definition validating_item :: "(nat \<Rightarrow> string) \<Rightarrow> string \<Rightarrow> string \<Rightarrow> (string \<times> attr) list" where
  "validating_item now b k =
     [(''jobId'', S (job_id_of_key k)), (''status'', S ''VALIDATING''),
      (''s3Source'', S (''s3://'' @ b @ ''/'' @ k)), (''startedAt'', S (now 0)),
      (''message'', S ''Validating CSV structure'')]"

definition failed_update :: "string \<Rightarrow> string \<Rightarrow> (string \<times> attr) list" where
  "failed_update msg t = [(''status'', S ''FAILED''), (''message'', S msg), (''finishedAt'', S t)]"

definition pending_update :: "(string \<times> attr) list" where
  "pending_update = [(''status'', S ''PENDING''), (''message'', S ''Queued for processing'')]"

definition processing_update :: "(string \<times> attr) list" where
  "processing_update = [(''status'', S ''PROCESSING''), (''message'', S ''Converting CSV to JSON'')]"

definition completed_update :: "env \<Rightarrow> (nat \<Rightarrow> string) \<Rightarrow> string \<Rightarrow> string \<Rightarrow> (string \<times> attr) list" where
  "completed_update E now job_id content =
     [(''status'', S ''COMPLETED''),
      (''message'', S (''Processed '' @
          str_int (int (length (converted E content)) + invalid_count E content) @ '' rows'' @
          (if invalid_count E content > 0
           then '' ('' @ str_int (invalid_count E content) @ '' errors)'' else []))),
      (''rowCount'', N (int (length (converted E content)) + invalid_count E content)),
      (''errorCount'', N (invalid_count E content)),
      (''s3OutputPrefix'', S (PROCESSED_PREFIX E @ job_id @ ''/'')),
      (''finishedAt'', S (now 0))]"

definition ev_bucket :: "env \<Rightarrow> s3_record list \<Rightarrow> pyval" where
  "ev_bucket E ev = fst (extract_s3 E ev)"

definition ev_key :: "env \<Rightarrow> s3_record list \<Rightarrow> pyval" where
  "ev_key E ev = fst (snd (extract_s3 E ev))"

definition vp_job_id :: "env \<Rightarrow> string \<Rightarrow> s3_record list \<Rightarrow> string" where
  "vp_job_id E uuid4 ev =
     (if truthy (ev_key E ev) then job_id_of_key (py_str (ev_key E ev)) else uuid4)"

definition job_item :: "env \<Rightarrow> (nat \<Rightarrow> string) \<Rightarrow> string \<Rightarrow> s3_record list \<Rightarrow> (string \<times> attr) list" where
  "job_item E now uuid4 ev =
     [(''jobId'', S (vp_job_id E uuid4 ev)),
      (''status'', S ''VALIDATING''),
      (''s3Source'', attr_of (snd (snd (extract_s3 E ev)))),
      (''s3OutputPrefix'', NULL),
      (''rowCount'', N 0),
      (''errorCount'', N 0),
      (''startedAt'', S (now 0)),
      (''finishedAt'', NULL),
      (''message'', S [])]"

definition vp_failed_update :: "string \<Rightarrow> string \<Rightarrow> (string \<times> attr) list" where
  "vp_failed_update t msg = [(''status'', S ''FAILED''), (''finishedAt'', S t), (''message'', S msg)]"

definition vp_success_update :: "env \<Rightarrow> (nat \<Rightarrow> string) \<Rightarrow> string \<Rightarrow> vp_result \<Rightarrow> (string \<times> attr) list" where
  "vp_success_update E now job_id result =
     [(''status'', S (if res_error_count result = 0 then ''COMPLETED'' else ''COMPLETED_WITH_ERRORS'')),
      (''s3OutputPrefix'', S (PROCESSED_PREFIX E @ job_id @ ''/'')),
      (''rowCount'', N (res_row_count result)),
      (''errorCount'', N (res_error_count result)),
      (''finishedAt'', S (now 1)),
      (''message'', S (res_message result))]"

section \<open>A concrete environment for examples\<close>

text \<open>
  \<open>simple_env\<close> instantiates the library parameters for text without quote characters,
  carriage returns, percent escapes or characters that JSON escapes, where
  \<^verbatim>\<open>csv.reader\<close> splits at line feeds and commas, \<^verbatim>\<open>json.dumps\<close> prints the
  strings as they are and \<^verbatim>\<open>unquote_plus\<close> only turns a plus sign into a space.
\<close>

fun split_on :: "char \<Rightarrow> string \<Rightarrow> string list" where
  "split_on d [] = [[]]"
| "split_on d (c # cs) =
     (if c = d then [] # split_on d cs
      else (case split_on d cs of [] \<Rightarrow> [[c]] | x # xs \<Rightarrow> (c # x) # xs))"

definition simple_csv_reader :: "string \<Rightarrow> string list list \<times> string option" where
  "simple_csv_reader text =
     (let pieces = split_on (CHR 0x0A) text;
          lines = (if last pieces = [] then butlast pieces else pieces)
      in (map (\<lambda>l. if l = [] then [] else split_on (CHR '','') l) lines, None))"

definition json_pair :: "string \<times> pyval \<Rightarrow> string" where
  "json_pair kv =
     CHR 0x22 # fst kv @ [CHR 0x22] @ '': '' @
     (case snd kv of PyNone \<Rightarrow> ''null'' | Str v \<Rightarrow> CHR 0x22 # v @ [CHR 0x22])"

definition simple_json_dumps :: "nat option \<Rightarrow> (string \<times> pyval) list list \<Rightarrow> string" where
  "simple_json_dumps indent recs =
     (case indent of
        None \<Rightarrow> ''['' @ join '', '' (map (\<lambda>r. ''{'' @ join '', '' (map json_pair r) @ ''}'') recs) @ '']''
      | Some n \<Rightarrow>
          if recs = [] then ''[]''
          else ''['' @ [CHR 0x0A] @
               join ('','' @ [CHR 0x0A])
                 (map (\<lambda>r. replicate n (CHR '' '') @ ''{'' @ [CHR 0x0A] @
                             join ('','' @ [CHR 0x0A])
                               (map (\<lambda>kv. replicate (2 * n) (CHR '' '') @ json_pair kv) r) @
                             [CHR 0x0A] @ replicate n (CHR '' '') @ ''}'') recs) @
               [CHR 0x0A] @ '']'')"

definition simple_unquote_plus :: "string \<Rightarrow> string" where
  "simple_unquote_plus k = map (\<lambda>c. if c = CHR ''+'' then CHR '' '' else c) k"

definition simple_env :: env where
  "simple_env =
     \<lparr>csv_reader = simple_csv_reader, json_dumps = simple_json_dumps,
      unquote_plus = simple_unquote_plus, PROCESSED_PREFIX = ''processed/''\<rparr>"

text \<open>
  A world whose bucket \<^verbatim>\<open>ingest\<close> holds one upload, the event S3 sends for it, the
  message the Validator queues for it, and a clock.
\<close>

definition upload_world :: "s3_object \<Rightarrow> world" where
  "upload_world obj =
     \<lparr>table = Map.empty, objects = [(''ingest'', ''uploads/job-1.csv'') \<mapsto> obj],
      queue = [], outage = {}, table_log = []\<rparr>"

definition upload_event :: "s3_record list" where
  "upload_event = [\<lparr>bucket_name = Some ''ingest'', object_key = Some ''uploads/job-1.csv''\<rparr>]"

text \<open>An upload event whose record names the object but carries no bucket name.\<close>

definition bucketless_event :: "s3_record list" where
  "bucketless_event = [\<lparr>bucket_name = None, object_key = Some ''uploads/job-1.csv''\<rparr>]"

definition upload_message :: "queue_message list" where
  "upload_message = [\<lparr>msg_jobId = ''job-1'', msg_bucket = ''ingest'', msg_key = ''uploads/job-1.csv''\<rparr>]"

definition clock :: "string \<Rightarrow> nat \<Rightarrow> string" where
  "clock day n = day @ ''T00:00:0'' @ str_nat n @ ''Z''"

text \<open>
  Three uploads: one valid and one invalid row; a single row with an empty value; a header
  without \<^verbatim>\<open>timestamp\<close>.
\<close>

definition sample_csv :: string where
  "sample_csv =
     ''id,value,timestamp'' @ [CHR 0x0A] @ ''1,10,2024-01-01T00:00:00Z'' @ [CHR 0x0A] @
     ''2,,2024-01-02T00:00:00Z'' @ [CHR 0x0A]"

definition empty_value_csv :: string where
  "empty_value_csv = ''id,value,timestamp'' @ [CHR 0x0A] @ ''1,,2024-01-01T00:00:00Z'' @ [CHR 0x0A]"

definition no_timestamp_csv :: string where
  "no_timestamp_csv = ''id,value'' @ [CHR 0x0A] @ ''1,10'' @ [CHR 0x0A]"

text \<open>
  The world after the Validator has handled the upload of \<open>sample_csv\<close>, and after the
  Converter has then handled the queued message.
\<close>

definition world_validated :: world where
  "world_validated =
     snd (validator_handler simple_env (clock ''2024-01-01'') (upload_world (Content sample_csv))
            upload_event)"

definition world_completed :: world where
  "world_completed =
     snd (processor_handler simple_env (clock ''2024-01-02'') world_validated upload_message)"

section \<open>The paths through the handlers\<close>

lemmas store_defs = put_item_def update_item_def write_table_def send_message_def put_object_def
  update_job_record_def write_job_record_def

lemmas write_defs = validating_item_def failed_update_def pending_update_def processing_update_def
  completed_update_def job_item_def vp_failed_update_def vp_success_update_def

lemma get_object_frame [simp]:
  "get_object (w\<lparr>table := t, table_log := l\<rparr>) b k = get_object w b k"
  by (simp add: get_object_def)

lemma new_writes_same [simp]: "new_writes w w = []"
  by (simp add: new_writes_def)

lemma new_writes_commit [simp]: "new_writes w (commit w ws) = ws"
  by (simp add: new_writes_def commit_def)

lemma new_writes_commit_queue [simp]: "new_writes w ((commit w ws)\<lparr>queue := q\<rparr>) = ws"
  by (simp add: new_writes_def commit_def)

lemma new_writes_commit_objects [simp]: "new_writes w ((commit w ws)\<lparr>objects := q\<rparr>) = ws"
  by (simp add: new_writes_def commit_def)

subsection \<open>The paths through the Validator\<close>

lemma validator_empty: "validator_handler E now w [] = (Raised ''IndexError'', w)"
  by (simp add: validator_handler_def)

lemma validator_no_bucket:
  "bucket_name rec = None \<Longrightarrow> validator_handler E now w (rec # rs) = (Raised ''KeyError'', w)"
  by (simp add: validator_handler_def)

lemma validator_no_key:
  "object_key rec = None \<Longrightarrow> validator_handler E now w (rec # rs) = (Raised ''KeyError'', w)"
  by (simp add: validator_handler_def split: option.splits)

lemma validator_store_down:
  assumes "bucket_name rec = Some b" and "object_key rec = Some k" and "StatusStore \<in> outage w"
  shows "validator_handler E now w (rec # rs) = (Raised ''status store unavailable'', w)"
  using assms by (simp add: validator_handler_def store_defs Let_def)

lemma validator_fetch_failed:
  assumes "bucket_name rec = Some b" and "object_key rec = Some k" and "StatusStore \<notin> outage w"
    and "get_object w b k = Inl e"
  shows "validator_handler E now w (rec # rs) =
     (Returned [(''status'', S ''failed''), (''jobId'', S (job_id_of_key k))],
      commit w [PutItem (job_id_of_key k) (validating_item now b k),
                UpdateItem (job_id_of_key k) (failed_update (''Could not read file: '' @ e) (now 1))])"
  using assms by (simp add: validator_handler_def store_defs Let_def commit_def write_defs)

lemma validator_header_error:
  assumes "bucket_name rec = Some b" and "object_key rec = Some k" and "StatusStore \<notin> outage w"
    and "get_object w b k = Inr content" and "fieldnames (csv_reader E content) = Inl e"
  shows "validator_handler E now w (rec # rs) =
     (Raised e, commit w [PutItem (job_id_of_key k) (validating_item now b k)])"
  using assms by (simp add: validator_handler_def store_defs Let_def commit_def write_defs)

lemma validator_missing_columns:
  assumes "bucket_name rec = Some b" and "object_key rec = Some k" and "StatusStore \<notin> outage w"
    and "get_object w b k = Inr content" and "fieldnames (csv_reader E content) = Inr fns"
    and "missing_columns fns \<noteq> []"
  shows "validator_handler E now w (rec # rs) =
     (Returned [(''status'', S ''failed''), (''jobId'', S (job_id_of_key k))],
      commit w [PutItem (job_id_of_key k) (validating_item now b k),
                UpdateItem (job_id_of_key k)
                  (failed_update (''Missing required columns: '' @ py_repr_list (missing_columns fns))
                     (now 1))])"
  using assms
  unfolding missing_columns_def
  by (simp add: validator_handler_def store_defs Let_def commit_def write_defs)

lemma validator_queue_down:
  assumes "bucket_name rec = Some b" and "object_key rec = Some k" and "StatusStore \<notin> outage w"
    and "get_object w b k = Inr content" and "fieldnames (csv_reader E content) = Inr fns"
    and "missing_columns fns = []" and "Queue \<in> outage w"
  shows "validator_handler E now w (rec # rs) =
     (Raised ''queue unavailable'', commit w [PutItem (job_id_of_key k) (validating_item now b k)])"
  using assms
  unfolding missing_columns_def
  by (simp add: validator_handler_def store_defs Let_def commit_def write_defs)

lemma validator_pending:
  assumes "bucket_name rec = Some b" and "object_key rec = Some k" and "StatusStore \<notin> outage w"
    and "get_object w b k = Inr content" and "fieldnames (csv_reader E content) = Inr fns"
    and "missing_columns fns = []" and "Queue \<notin> outage w"
  shows "validator_handler E now w (rec # rs) =
     (Returned [(''status'', S ''ok''), (''jobId'', S (job_id_of_key k))],
      (commit w [PutItem (job_id_of_key k) (validating_item now b k),
                 UpdateItem (job_id_of_key k) pending_update])
      \<lparr>queue := queue w @ [\<lparr>msg_jobId = job_id_of_key k, msg_bucket = b, msg_key = k\<rparr>]\<rparr>)"
  using assms
  unfolding missing_columns_def
  by (simp add: validator_handler_def store_defs Let_def commit_def write_defs)

lemma validator_cases [case_names raised raised_after_put failed pending]:
  obtains
    (raised) e where
      "ev = [] \<or> bucket_name (hd ev) = None \<or> object_key (hd ev) = None \<or> StatusStore \<in> outage w"
      "validator_handler E now w ev = (Raised e, w)"
  | (raised_after_put) rec rs e b k where
      "ev = rec # rs" "bucket_name rec = Some b" "object_key rec = Some k"
      "StatusStore \<notin> outage w"
      "validator_handler E now w ev =
         (Raised e, commit w [PutItem (job_id_of_key k) (validating_item now b k)])"
  | (failed) rec rs b k msg where
      "ev = rec # rs" "bucket_name rec = Some b" "object_key rec = Some k"
      "StatusStore \<notin> outage w"
      "validator_handler E now w ev =
         (Returned [(''status'', S ''failed''), (''jobId'', S (job_id_of_key k))],
          commit w [PutItem (job_id_of_key k) (validating_item now b k),
                    UpdateItem (job_id_of_key k) (failed_update msg (now 1))])"
  | (pending) rec rs b k where
      "ev = rec # rs" "bucket_name rec = Some b" "object_key rec = Some k"
      "StatusStore \<notin> outage w"
      "validator_handler E now w ev =
         (Returned [(''status'', S ''ok''), (''jobId'', S (job_id_of_key k))],
          (commit w [PutItem (job_id_of_key k) (validating_item now b k),
                     UpdateItem (job_id_of_key k) pending_update])
          \<lparr>queue := queue w @ [\<lparr>msg_jobId = job_id_of_key k, msg_bucket = b, msg_key = k\<rparr>]\<rparr>)"
proof (cases ev)
  case Nil
  then show thesis using raised validator_empty by blast
next
  case (Cons rec rs)
  show thesis
  proof (cases "bucket_name rec")
    case None
    with Cons show thesis using raised [of "''KeyError''"] validator_no_bucket by simp
  next
    case b: (Some b)
    show thesis
    proof (cases "object_key rec")
      case None
      with Cons show thesis using raised [of "''KeyError''"] validator_no_key by simp
    next
      case k: (Some k)
      show thesis
      proof (cases "StatusStore \<in> outage w")
        case True
        with Cons b k show thesis
          using raised [of "''status store unavailable''"] validator_store_down by simp
      next
        case up: False
        show thesis
        proof (cases "get_object w b k")
          case (Inl e)
          show thesis
            using failed [OF Cons b k up] validator_fetch_failed [OF b k up Inl] Cons by simp
        next
          case c: (Inr content)
          show thesis
          proof (cases "fieldnames (csv_reader E content)")
            case (Inl e)
            show thesis
              using raised_after_put [OF Cons b k up] validator_header_error [OF b k up c Inl] Cons
              by simp
          next
            case f: (Inr fns)
            show thesis
            proof (cases "missing_columns fns = []")
              case False
              show thesis
                using failed [OF Cons b k up] validator_missing_columns [OF b k up c f False] Cons
                by simp
            next
              case m: True
              show thesis
              proof (cases "Queue \<in> outage w")
                case True
                show thesis
                  using raised_after_put [OF Cons b k up]
                    validator_queue_down [OF b k up c f m True] Cons
                  by simp
              next
                case False
                show thesis
                  using pending [OF Cons b k up] validator_pending [OF b k up c f m False] Cons
                  by simp
              qed
            qed
          qed
        qed
      qed
    qed
  qed
qed

lemma validator_terminal_last:
  "terminal_last (new_writes w (snd (validator_handler E now w ev)))"
  by (cases rule: validator_cases [of ev w E now])
     (simp_all add: terminal_def set_attrs_def write_defs)

subsection \<open>The loops over the rows\<close>

lemma truthy_dict_get: "truthy (dict_get row k) = present (row k)"
  by (cases "row k" rule: present.cases) (simp_all add: dict_get_def)

lemma required_truthy_iff:
  "list_all (\<lambda>col. truthy (dict_get row col)) REQUIRED_COLUMNS = valid_row row"
  by (simp add: REQUIRED_COLUMNS_def valid_row_def truthy_dict_get)

lemma present_Some: "present (row k) \<Longrightarrow> row k = Some (dict_get row k)"
  by (cases "row k") (simp_all add: dict_get_def)

lemma convert_rows_eq:
  "convert_rows rows acc ec =
     Inr (acc @ map record_of (filter valid_row rows),
          ec + int (length (filter (\<lambda>r. \<not> valid_row r) rows)))"
proof (induction rows arbitrary: acc ec)
  case Nil
  show ?case by simp
next
  case (Cons row rows)
  show ?case
  proof (cases "valid_row row")
    case True
    then have k: "row ''id'' = Some (dict_get row ''id'')"
      "row ''value'' = Some (dict_get row ''value'')"
      "row ''timestamp'' = Some (dict_get row ''timestamp'')"
      by (auto simp: valid_row_def intro: present_Some)
    from True show ?thesis
      using k by (simp add: required_truthy_iff Cons.IH record_of_def)
  next
    case False
    then show ?thesis
      by (simp add: required_truthy_iff Cons.IH)
  qed
qed

lemma convert_rows_start:
  "convert_rows (dict_rows (csv_reader E content)) [] 0 =
     Inr (converted E content, invalid_count E content)"
  by (simp add: convert_rows_eq converted_def invalid_count_def)

lemma py_not_dict_get: "py_not (dict_get row k) = (\<not> present (row k))"
  by (simp add: py_not_def truthy_dict_get)

lemma scan_rows_eq:
  "scan_rows rows acc rc ec =
     (acc @ map record_of (filter valid_row rows),
      rc + int (length rows),
      ec + int (length (filter (\<lambda>r. \<not> valid_row r) rows)))"
proof (induction rows arbitrary: acc rc ec)
  case Nil
  show ?case by simp
next
  case (Cons row rows)
  show ?case
    by (cases "valid_row row")
       (auto simp: py_not_dict_get valid_row_def Cons.IH record_of_def)
qed

lemma scan_rows_start:
  "scan_rows (dict_rows (csv_reader E content)) [] 0 0 =
     (converted E content, int (length (dict_rows (csv_reader E content))),
      invalid_count E content)"
  by (simp add: scan_rows_eq converted_def invalid_count_def)

lemma length_rows_split:
  "int (length (dict_rows (csv_reader E content))) =
     int (length (converted E content)) + invalid_count E content"
  using sum_length_filter_compl [of valid_row "dict_rows (csv_reader E content)"]
  by (simp add: converted_def invalid_count_def)

subsection \<open>The paths through the Converter\<close>

lemma processor_empty: "processor_handler E now w [] = (Raised ''IndexError'', w)"
  by (simp add: processor_handler_def)

lemma processor_store_down:
  "StatusStore \<in> outage w \<Longrightarrow>
   processor_handler E now w (m # ms) = (Raised ''status store unavailable'', w)"
  by (simp add: processor_handler_def store_defs Let_def)

lemma processor_fetch_failed:
  assumes "StatusStore \<notin> outage w" and "get_object w (msg_bucket m) (msg_key m) = Inl e"
  shows "processor_handler E now w (m # ms) =
     (Raised e,
      commit w [UpdateItem (msg_jobId m) processing_update,
                UpdateItem (msg_jobId m) (failed_update (''Could not read file: '' @ e) (now 0))])"
  using assms
  by (simp add: processor_handler_def store_defs Let_def commit_def write_defs)

lemma processor_csv_error:
  assumes "StatusStore \<notin> outage w" and "get_object w (msg_bucket m) (msg_key m) = Inr content"
    and "snd (csv_reader E content) = Some e"
  shows "processor_handler E now w (m # ms) =
     (Raised e, commit w [UpdateItem (msg_jobId m) processing_update])"
  using assms
  by (simp add: processor_handler_def store_defs Let_def commit_def write_defs
      convert_rows_start)

lemma processor_put_denied:
  assumes "StatusStore \<notin> outage w" and "get_object w (msg_bucket m) (msg_key m) = Inr content"
    and "snd (csv_reader E content) = None" and "ObjectWrite \<in> outage w"
  shows "processor_handler E now w (m # ms) =
     (Raised ''object store rejects the write'',
      commit w [UpdateItem (msg_jobId m) processing_update])"
  using assms
  by (simp add: processor_handler_def store_defs Let_def commit_def write_defs
      convert_rows_start)

lemma processor_completed:
  assumes "StatusStore \<notin> outage w" and "get_object w (msg_bucket m) (msg_key m) = Inr content"
    and "snd (csv_reader E content) = None" and "ObjectWrite \<notin> outage w"
  shows "processor_handler E now w (m # ms) =
     (Returned [(''status'', S ''ok''), (''jobId'', S (msg_jobId m)),
                (''rowCount'', N (int (length (converted E content)) + invalid_count E content))],
      (commit w [UpdateItem (msg_jobId m) processing_update,
                 UpdateItem (msg_jobId m) (completed_update E now (msg_jobId m) content)])
      \<lparr>objects := (objects w)
         ((msg_bucket m, PROCESSED_PREFIX E @ msg_jobId m @ ''/output.json'') \<mapsto>
            Content (json_dumps E (Some 2) (converted E content)))\<rparr>)"
  using assms
  by (simp add: processor_handler_def store_defs Let_def commit_def write_defs
      convert_rows_start)

lemma processor_cases [case_names raised fetch_failed raised_processing completed]:
  obtains
    (raised) e where "ev = [] \<or> StatusStore \<in> outage w"
      "processor_handler E now w ev = (Raised e, w)"
  | (fetch_failed) m ms e where "ev = m # ms" "StatusStore \<notin> outage w"
      "get_object w (msg_bucket m) (msg_key m) = Inl e"
      "processor_handler E now w ev =
         (Raised e,
          commit w [UpdateItem (msg_jobId m) processing_update,
                    UpdateItem (msg_jobId m) (failed_update (''Could not read file: '' @ e) (now 0))])"
  | (raised_processing) m ms e content where "ev = m # ms" "StatusStore \<notin> outage w"
      "get_object w (msg_bucket m) (msg_key m) = Inr content"
      "snd (csv_reader E content) \<noteq> None \<or> ObjectWrite \<in> outage w"
      "processor_handler E now w ev =
         (Raised e, commit w [UpdateItem (msg_jobId m) processing_update])"
  | (completed) m ms content where "ev = m # ms" "StatusStore \<notin> outage w"
      "get_object w (msg_bucket m) (msg_key m) = Inr content"
      "snd (csv_reader E content) = None" "ObjectWrite \<notin> outage w"
      "processor_handler E now w ev =
         (Returned [(''status'', S ''ok''), (''jobId'', S (msg_jobId m)),
                    (''rowCount'', N (int (length (converted E content)) + invalid_count E content))],
          (commit w [UpdateItem (msg_jobId m) processing_update,
                     UpdateItem (msg_jobId m) (completed_update E now (msg_jobId m) content)])
          \<lparr>objects := (objects w)
             ((msg_bucket m, PROCESSED_PREFIX E @ msg_jobId m @ ''/output.json'') \<mapsto>
                Content (json_dumps E (Some 2) (converted E content)))\<rparr>)"
proof (cases ev)
  case Nil
  then show thesis using raised processor_empty by blast
next
  case (Cons m ms)
  show thesis
  proof (cases "StatusStore \<in> outage w")
    case True
    with Cons show thesis
      using raised [of "''status store unavailable''"] processor_store_down by simp
  next
    case up: False
    show thesis
    proof (cases "get_object w (msg_bucket m) (msg_key m)")
      case (Inl e)
      show thesis
        using fetch_failed [OF Cons up Inl] processor_fetch_failed [OF up Inl] Cons by simp
    next
      case c: (Inr content)
      show thesis
      proof (cases "snd (csv_reader E content)")
        case (Some e)
        show thesis
          using raised_processing [OF Cons up c] processor_csv_error [OF up c Some] Some Cons
          by simp
      next
        case None
        show thesis
        proof (cases "ObjectWrite \<in> outage w")
          case True
          show thesis
            using raised_processing [OF Cons up c] processor_put_denied [OF up c None True] True Cons
            by simp
        next
          case False
          show thesis
            using completed [OF Cons up c None False] processor_completed [OF up c None False] Cons
            by simp
        qed
      qed
    qed
  qed
qed

lemma processor_terminal_last:
  "terminal_last (new_writes w (snd (processor_handler E now w ev)))"
  by (cases rule: processor_cases [of ev w E now])
     (simp_all add: terminal_def set_attrs_def write_defs)

subsection \<open>The paths through the monolithic handler\<close>

lemma vp_store_down:
  assumes "StatusStore \<in> outage w"
  shows "validator_processor_handler E now uuid4 w ev =
     (Returned [(''status'', S ''error''),
                (''message'', S (''Failed to write initial job record: '' @ ''status store unavailable''))],
      w)"
  using assms
  by (simp add: validator_processor_handler_def store_defs Let_def)

lemma vp_invalid_payload:
  assumes "StatusStore \<notin> outage w" and "py_not (ev_bucket E ev) \<or> py_not (ev_key E ev)"
  shows "validator_processor_handler E now uuid4 w ev =
     (Returned [(''status'', S ''failed''), (''jobId'', S (vp_job_id E uuid4 ev))],
      commit w [PutItem (vp_job_id E uuid4 ev) (job_item E now uuid4 ev),
                UpdateItem (vp_job_id E uuid4 ev)
                  (vp_failed_update (now 1) ''Invalid S3 event payload'')])"
  using assms
  by (simp add: validator_processor_handler_def store_defs Let_def commit_def write_defs
      ev_bucket_def ev_key_def vp_job_id_def)

lemma vp_fetch_failed:
  assumes "StatusStore \<notin> outage w" and "truthy (ev_bucket E ev)" and "truthy (ev_key E ev)"
    and "get_object w (py_str (ev_bucket E ev)) (py_str (ev_key E ev)) = Inl e"
  shows "validator_processor_handler E now uuid4 w ev =
     (Returned [(''status'', S ''failed''), (''jobId'', S (vp_job_id E uuid4 ev))],
      commit w [PutItem (vp_job_id E uuid4 ev) (job_item E now uuid4 ev),
                UpdateItem (vp_job_id E uuid4 ev)
                  (vp_failed_update (now 1) (''Failed to read S3 object: '' @ e))])"
  using assms
  by (simp add: validator_processor_handler_def store_defs Let_def commit_def write_defs
      ev_bucket_def ev_key_def vp_job_id_def py_not_def)

lemma vp_processing_error:
  assumes "StatusStore \<notin> outage w" and "truthy (ev_bucket E ev)" and "truthy (ev_key E ev)"
    and "get_object w (py_str (ev_bucket E ev)) (py_str (ev_key E ev)) = Inr body"
    and "validate_and_process_csv E body = Inl e"
  shows "validator_processor_handler E now uuid4 w ev =
     (Returned [(''status'', S ''failed''), (''jobId'', S (vp_job_id E uuid4 ev))],
      commit w [PutItem (vp_job_id E uuid4 ev) (job_item E now uuid4 ev),
                UpdateItem (vp_job_id E uuid4 ev)
                  (vp_failed_update (now 1) (''Processing error: '' @ e))])"
  using assms
  by (simp add: validator_processor_handler_def store_defs Let_def commit_def write_defs
      ev_bucket_def ev_key_def vp_job_id_def py_not_def)

lemma vp_put_denied:
  assumes "StatusStore \<notin> outage w" and "truthy (ev_bucket E ev)" and "truthy (ev_key E ev)"
    and "get_object w (py_str (ev_bucket E ev)) (py_str (ev_key E ev)) = Inr body"
    and "validate_and_process_csv E body = Inr result"
    and "res_row_count result > 0" and "res_records result \<noteq> []" and "ObjectWrite \<in> outage w"
  shows "validator_processor_handler E now uuid4 w ev =
     (Returned [(''status'', S ''failed''), (''jobId'', S (vp_job_id E uuid4 ev))],
      commit w [PutItem (vp_job_id E uuid4 ev) (job_item E now uuid4 ev),
                UpdateItem (vp_job_id E uuid4 ev)
                  (vp_failed_update (now 1)
                     (''Failed to write processed output or update job: '' @
                      ''object store rejects the write''))])"
  using assms
  by (simp add: validator_processor_handler_def write_output_def store_defs Let_def commit_def
      write_defs ev_bucket_def ev_key_def vp_job_id_def py_not_def)

lemma vp_written:
  assumes "StatusStore \<notin> outage w" and "truthy (ev_bucket E ev)" and "truthy (ev_key E ev)"
    and "get_object w (py_str (ev_bucket E ev)) (py_str (ev_key E ev)) = Inr body"
    and "validate_and_process_csv E body = Inr result"
    and "res_row_count result > 0" and "res_records result \<noteq> []" and "ObjectWrite \<notin> outage w"
  shows "validator_processor_handler E now uuid4 w ev =
     (Returned [(''status'', S ''ok''), (''jobId'', S (vp_job_id E uuid4 ev)),
                (''rowCount'', N (res_row_count result)),
                (''errorCount'', N (res_error_count result))],
      (commit w [PutItem (vp_job_id E uuid4 ev) (job_item E now uuid4 ev),
                 UpdateItem (vp_job_id E uuid4 ev)
                   (vp_success_update E now (vp_job_id E uuid4 ev) result)])
      \<lparr>objects := (objects w)
         ((py_str (ev_bucket E ev), PROCESSED_PREFIX E @ vp_job_id E uuid4 ev @ ''/output.json'') \<mapsto>
            Content (json_dumps E None (res_records result)))\<rparr>)"
  using assms
  by (simp add: validator_processor_handler_def write_output_def store_defs Let_def commit_def
      write_defs ev_bucket_def ev_key_def vp_job_id_def py_not_def)

lemma vp_unwritten:
  assumes "StatusStore \<notin> outage w" and "truthy (ev_bucket E ev)" and "truthy (ev_key E ev)"
    and "get_object w (py_str (ev_bucket E ev)) (py_str (ev_key E ev)) = Inr body"
    and "validate_and_process_csv E body = Inr result"
    and "\<not> (res_row_count result > 0 \<and> res_records result \<noteq> [])"
  shows "validator_processor_handler E now uuid4 w ev =
     (Returned [(''status'', S ''ok''), (''jobId'', S (vp_job_id E uuid4 ev)),
                (''rowCount'', N (res_row_count result)),
                (''errorCount'', N (res_error_count result))],
      commit w [PutItem (vp_job_id E uuid4 ev) (job_item E now uuid4 ev),
                UpdateItem (vp_job_id E uuid4 ev)
                  (vp_success_update E now (vp_job_id E uuid4 ev) result)])"
  using assms
  by (cases "0 < res_row_count result")
     (simp_all add: validator_processor_handler_def write_output_def store_defs Let_def commit_def
        write_defs ev_bucket_def ev_key_def vp_job_id_def py_not_def)

lemma vp_cases [case_names store_down failed written unwritten]:
  obtains
    (store_down) msg where "StatusStore \<in> outage w"
      "validator_processor_handler E now uuid4 w ev =
         (Returned [(''status'', S ''error''), (''message'', S msg)], w)"
  | (failed) msg where "StatusStore \<notin> outage w"
      "validator_processor_handler E now uuid4 w ev =
         (Returned [(''status'', S ''failed''), (''jobId'', S (vp_job_id E uuid4 ev))],
          commit w [PutItem (vp_job_id E uuid4 ev) (job_item E now uuid4 ev),
                    UpdateItem (vp_job_id E uuid4 ev) (vp_failed_update (now 1) msg)])"
  | (written) body result where "StatusStore \<notin> outage w"
      "get_object w (py_str (ev_bucket E ev)) (py_str (ev_key E ev)) = Inr body"
      "validate_and_process_csv E body = Inr result"
      "res_records result \<noteq> []"
      "validator_processor_handler E now uuid4 w ev =
         (Returned [(''status'', S ''ok''), (''jobId'', S (vp_job_id E uuid4 ev)),
                    (''rowCount'', N (res_row_count result)),
                    (''errorCount'', N (res_error_count result))],
          (commit w [PutItem (vp_job_id E uuid4 ev) (job_item E now uuid4 ev),
                     UpdateItem (vp_job_id E uuid4 ev)
                       (vp_success_update E now (vp_job_id E uuid4 ev) result)])
          \<lparr>objects := (objects w)
             ((py_str (ev_bucket E ev), PROCESSED_PREFIX E @ vp_job_id E uuid4 ev @ ''/output.json'') \<mapsto>
                Content (json_dumps E None (res_records result)))\<rparr>)"
  | (unwritten) body result where "StatusStore \<notin> outage w"
      "get_object w (py_str (ev_bucket E ev)) (py_str (ev_key E ev)) = Inr body"
      "validate_and_process_csv E body = Inr result"
      "validator_processor_handler E now uuid4 w ev =
         (Returned [(''status'', S ''ok''), (''jobId'', S (vp_job_id E uuid4 ev)),
                    (''rowCount'', N (res_row_count result)),
                    (''errorCount'', N (res_error_count result))],
          commit w [PutItem (vp_job_id E uuid4 ev) (job_item E now uuid4 ev),
                    UpdateItem (vp_job_id E uuid4 ev)
                      (vp_success_update E now (vp_job_id E uuid4 ev) result)])"
proof (cases "StatusStore \<in> outage w")
  case True
  then show thesis using store_down vp_store_down by blast
next
  case up: False
  show thesis
  proof (cases "py_not (ev_bucket E ev) \<or> py_not (ev_key E ev)")
    case True
    show thesis using failed [OF up] vp_invalid_payload [OF up True] by blast
  next
    case False
    then have b: "truthy (ev_bucket E ev)" and k: "truthy (ev_key E ev)"
      by (simp_all add: py_not_def)
    show thesis
    proof (cases "get_object w (py_str (ev_bucket E ev)) (py_str (ev_key E ev))")
      case (Inl e)
      show thesis using failed [OF up] vp_fetch_failed [OF up b k Inl] by blast
    next
      case c: (Inr body)
      show thesis
      proof (cases "validate_and_process_csv E body")
        case (Inl e)
        show thesis using failed [OF up] vp_processing_error [OF up b k c Inl] by blast
      next
        case r: (Inr result)
        show thesis
        proof (cases "res_row_count result > 0 \<and> res_records result \<noteq> []")
          case False
          show thesis using unwritten [OF up c r] vp_unwritten [OF up b k c r False] by blast
        next
          case True
          then have p: "res_row_count result > 0" and q: "res_records result \<noteq> []"
            by simp_all
          show thesis
          proof (cases "ObjectWrite \<in> outage w")
            case True
            show thesis using failed [OF up] vp_put_denied [OF up b k c r p q True] by blast
          next
            case False
            show thesis
              using written [OF up c r q] vp_written [OF up b k c r p q False] by blast
          qed
        qed
      qed
    qed
  qed
qed

lemma vp_terminal_last:
  "terminal_last (new_writes w (snd (validator_processor_handler E now uuid4 w ev)))"
  by (cases rule: vp_cases [of w E now uuid4 ev])
     (simp_all add: terminal_def set_attrs_def write_defs)

subsection \<open>Reading the world a handler leaves\<close>

lemma commit_simps [simp]:
  "table (commit w ws) = foldl apply_write (table w) ws"
  "table_log (commit w ws) = table_log w @ ws"
  "objects (commit w ws) = objects w"
  "queue (commit w ws) = queue w"
  "outage (commit w ws) = outage w"
  by (simp_all add: commit_def)

lemma job_attr_commit:
  "job_attr (commit w ws) j a =
     (case foldl apply_write (table w) ws j of None \<Rightarrow> None | Some it \<Rightarrow> it a)"
  by (simp add: job_attr_def)

lemma job_attr_objects [simp]: "job_attr (w\<lparr>objects := os\<rparr>) j a = job_attr w j a"
  by (simp add: job_attr_def)

lemma job_attr_queue [simp]: "job_attr (w\<lparr>queue := q\<rparr>) j a = job_attr w j a"
  by (simp add: job_attr_def)

lemma job_attr_outage [simp]: "job_attr (w\<lparr>outage := q\<rparr>) j a = job_attr w j a"
  by (simp add: job_attr_def)

lemma get_object_cong:
  "objects w' (b, k) = objects w (b, k) \<Longrightarrow> get_object w' b k = get_object w b k"
  by (simp add: get_object_def)

subsection \<open>The sample uploads\<close>

lemma sample_csv_rows:
  "simple_csv_reader sample_csv =
     ([[''id'', ''value'', ''timestamp''], [''1'', ''10'', ''2024-01-01T00:00:00Z''],
       [''2'', [], ''2024-01-02T00:00:00Z'']], None)"
  by (simp add: simple_csv_reader_def sample_csv_def)

lemma empty_value_csv_rows:
  "simple_csv_reader empty_value_csv =
     ([[''id'', ''value'', ''timestamp''], [''1'', [], ''2024-01-01T00:00:00Z'']], None)"
  by (simp add: simple_csv_reader_def empty_value_csv_def)

lemma no_timestamp_csv_rows:
  "simple_csv_reader no_timestamp_csv = ([[''id'', ''value''], [''1'', ''10'']], None)"
  by (simp add: simple_csv_reader_def no_timestamp_csv_def)

lemma simple_env_simps [simp]:
  "csv_reader simple_env = simple_csv_reader"
  "json_dumps simple_env = simple_json_dumps"
  "unquote_plus simple_env = simple_unquote_plus"
  "PROCESSED_PREFIX simple_env = ''processed/''"
  by (simp_all add: simple_env_def)

lemma sample_converted:
  "converted simple_env sample_csv =
     [[(''id'', Str ''1''), (''value'', Str ''10''), (''timestamp'', Str ''2024-01-01T00:00:00Z'')]]"
  by (simp add: converted_def sample_csv_rows dict_rows_def row_dict_def valid_row_def
      record_of_def dict_get_def)

lemma sample_invalid_count: "invalid_count simple_env sample_csv = 1"
  by (simp add: invalid_count_def sample_csv_rows dict_rows_def row_dict_def valid_row_def)

lemma empty_value_converted: "converted simple_env empty_value_csv = []"
  by (simp add: converted_def empty_value_csv_rows dict_rows_def row_dict_def valid_row_def)

lemma empty_value_invalid_count: "invalid_count simple_env empty_value_csv = 1"
  by (simp add: invalid_count_def empty_value_csv_rows dict_rows_def row_dict_def valid_row_def)

lemma vp_valid_header:
  assumes "fieldnames (csv_reader E content) = Inr fns" and "missing_columns fns = []"
    and "snd (csv_reader E content) = None"
  shows "validate_and_process_csv E content =
     Inr \<lparr>res_ok = True, res_message = ''Processed'',
          res_row_count = int (length (dict_rows (csv_reader E content))),
          res_error_count = invalid_count E content,
          res_records = converted E content\<rparr>"
  using assms
  unfolding missing_columns_def
  by (simp add: validate_and_process_csv_def Let_def scan_rows_start)

lemma vp_missing_header:
  assumes "fieldnames (csv_reader E content) = Inr fns" and "missing_columns fns \<noteq> []"
  shows "validate_and_process_csv E content =
     Inr \<lparr>res_ok = False,
          res_message = ''Missing required columns: '' @ py_repr_list (missing_columns fns),
          res_row_count = 0, res_error_count = 0, res_records = []\<rparr>"
  using assms
  unfolding missing_columns_def
  by (simp add: validate_and_process_csv_def Let_def)

lemma sample_fieldnames:
  "fieldnames (csv_reader simple_env sample_csv) = Inr (Some [''id'', ''value'', ''timestamp''])"
  by (simp add: fieldnames_def sample_csv_rows)

lemma required_not_missing: "missing_columns (Some [''id'', ''value'', ''timestamp'']) = []"
  by (simp add: missing_columns_def REQUIRED_COLUMNS_def)

lemma set_attrs_map_of:
  "set_attrs kvs it a = (case map_of (rev kvs) a of None \<Rightarrow> it a | Some v \<Rightarrow> Some v)"
proof (induction kvs arbitrary: it)
  case Nil
  show ?case by (simp add: set_attrs_def)
next
  case (Cons kv kvs)
  have "set_attrs (kv # kvs) it a = set_attrs kvs (it(fst kv \<mapsto> snd kv)) a"
    by (simp add: set_attrs_def)
  then show ?case
    by (cases kv) (simp add: Cons.IH map_add_def split: option.splits)
qed

lemma set_attrs_lookup:
  "set_attrs kvs it a = (case set_attrs kvs Map.empty a of None \<Rightarrow> it a | Some v \<Rightarrow> Some v)"
  by (simp add: set_attrs_map_of [of kvs it a] set_attrs_map_of [of kvs Map.empty a]
      split: option.splits)

lemma job_attr_update:
  "job_attr (commit w [UpdateItem j kvs]) j a =
     (case set_attrs kvs Map.empty a of
        Some v \<Rightarrow> Some v
      | None \<Rightarrow> (case table w j of None \<Rightarrow> [''jobId'' \<mapsto> S j] a | Some it \<Rightarrow> it a))"
proof (cases "table w j")
  case None
  then show ?thesis
    using set_attrs_lookup [of kvs "[''jobId'' \<mapsto> S j]" a]
    by (simp add: job_attr_commit split: option.splits)
next
  case (Some it)
  then show ?thesis
    using set_attrs_lookup [of kvs it a]
    by (simp add: job_attr_commit split: option.splits)
qed

lemma job_attr_update2:
  "job_attr (commit w [UpdateItem j kvs, UpdateItem j kvs']) j a =
     (case set_attrs kvs' Map.empty a of
        Some v \<Rightarrow> Some v
      | None \<Rightarrow>
          (case set_attrs kvs Map.empty a of
             Some v \<Rightarrow> Some v
           | None \<Rightarrow> (case table w j of None \<Rightarrow> [''jobId'' \<mapsto> S j] a | Some it \<Rightarrow> it a)))"
  using job_attr_update [of "commit w [UpdateItem j kvs]" j kvs' a] job_attr_update [of w j kvs a]
  by (simp add: commit_def job_attr_def split: option.splits)

lemma job_attr_put:
  "job_attr (commit w (PutItem j kvs # ws)) j' a = job_attr (commit (w\<lparr>table := (table w)(j \<mapsto> set_attrs kvs Map.empty)\<rparr>) ws) j' a"
  by (simp add: job_attr_commit)

lemma upload_world_simps [simp]:
  "table (upload_world obj) = Map.empty"
  "objects (upload_world obj) = [(''ingest'', ''uploads/job-1.csv'') \<mapsto> obj]"
  "queue (upload_world obj) = []"
  "outage (upload_world obj) = {}"
  "table_log (upload_world obj) = []"
  by (simp_all add: upload_world_def)

lemma upload_get_object:
  "get_object (upload_world (Content c)) ''ingest'' ''uploads/job-1.csv'' = Inr c"
  "get_object (upload_world (Unreadable e)) ''ingest'' ''uploads/job-1.csv'' = Inl e"
  by (simp_all add: get_object_def)

lemma job_id_sample: "job_id_of_key ''uploads/job-1.csv'' = ''job-1''"
  by (simp add: job_id_of_key_def splitext_root_def basename_def)

lemma upload_event_extract:
  "ev_bucket simple_env upload_event = Str ''ingest''"
  "ev_key simple_env upload_event = Str ''uploads/job-1.csv''"
  "vp_job_id simple_env u upload_event = ''job-1''"
  by (simp_all add: ev_bucket_def ev_key_def vp_job_id_def extract_s3_def upload_event_def
      simple_unquote_plus_def Let_def job_id_sample)

lemma world_validated_eq:
  "world_validated =
     (commit (upload_world (Content sample_csv))
        [PutItem ''job-1'' (validating_item (clock ''2024-01-01'') ''ingest'' ''uploads/job-1.csv''),
         UpdateItem ''job-1'' pending_update])
     \<lparr>queue := upload_message\<rparr>"
  unfolding world_validated_def upload_event_def
  using validator_pending [of "\<lparr>bucket_name = Some ''ingest'', object_key = Some ''uploads/job-1.csv''\<rparr>"
      "''ingest''" "''uploads/job-1.csv''" "upload_world (Content sample_csv)" sample_csv simple_env
      "Some [''id'', ''value'', ''timestamp'']" "clock ''2024-01-01''" "[]"]
    sample_fieldnames required_not_missing
  by (simp add: upload_get_object job_id_sample upload_message_def)

lemma world_validated_simps [simp]:
  "objects world_validated = [(''ingest'', ''uploads/job-1.csv'') \<mapsto> Content sample_csv]"
  "outage world_validated = {}"
  "queue world_validated = upload_message"
  by (simp_all add: world_validated_eq)

lemma world_completed_eq:
  "world_completed =
     (commit world_validated
        [UpdateItem ''job-1'' processing_update,
         UpdateItem ''job-1'' (completed_update simple_env (clock ''2024-01-02'') ''job-1'' sample_csv)])
     \<lparr>objects := (objects world_validated)
        ((''ingest'', ''processed/job-1/output.json'') \<mapsto>
           Content (simple_json_dumps (Some 2) (converted simple_env sample_csv)))\<rparr>"
  unfolding world_completed_def upload_message_def
  using processor_completed [of world_validated
      "\<lparr>msg_jobId = ''job-1'', msg_bucket = ''ingest'', msg_key = ''uploads/job-1.csv''\<rparr>"
      sample_csv simple_env "clock ''2024-01-02''" "[]"]
  by (simp add: get_object_def sample_csv_rows)

lemma world_completed_simps [simp]:
  "objects world_completed (''ingest'', ''uploads/job-1.csv'') = Some (Content sample_csv)"
  "outage world_completed = {}"
  by (simp_all add: world_completed_eq)

lemma world_completed_record:
  "job_attr world_completed ''job-1'' ''status'' = Some (S ''COMPLETED'')"
  "job_attr world_completed ''job-1'' ''errorCount'' = Some (N 1)"
  "job_attr world_completed ''job-1'' ''rowCount'' = Some (N 2)"
  "job_attr world_completed ''job-1'' ''finishedAt'' = Some (S (clock ''2024-01-02'' 0))"
  by (simp_all add: world_completed_eq job_attr_update2 set_attrs_def write_defs
      sample_converted sample_invalid_count)

lemma no_timestamp_fieldnames:
  "fieldnames (csv_reader simple_env no_timestamp_csv) = Inr (Some [''id'', ''value''])"
  by (simp add: fieldnames_def no_timestamp_csv_rows)

lemma timestamp_missing: "missing_columns (Some [''id'', ''value'']) = [''timestamp'']"
  by (simp add: missing_columns_def REQUIRED_COLUMNS_def)

lemma no_timestamp_result:
  "validate_and_process_csv simple_env no_timestamp_csv =
     Inr \<lparr>res_ok = False,
          res_message = ''Missing required columns: '' @ py_repr_list [''timestamp''],
          res_row_count = 0, res_error_count = 0, res_records = []\<rparr>"
  using vp_missing_header [OF no_timestamp_fieldnames] by (simp add: timestamp_missing)

lemma job_attr_update_other:
  "a \<noteq> ''jobId'' \<Longrightarrow>
   job_attr (commit w [UpdateItem j kvs]) j a =
     (case set_attrs kvs Map.empty a of Some v \<Rightarrow> Some v | None \<Rightarrow> job_attr w j a)"
  by (simp add: job_attr_update) (simp add: job_attr_def split: option.splits)

lemma job_attr_update2_other:
  "a \<noteq> ''jobId'' \<Longrightarrow>
   job_attr (commit w [UpdateItem j kvs, UpdateItem j kvs']) j a =
     (case set_attrs kvs' Map.empty a of
        Some v \<Rightarrow> Some v
      | None \<Rightarrow> (case set_attrs kvs Map.empty a of Some v \<Rightarrow> Some v | None \<Rightarrow> job_attr w j a))"
  by (simp add: job_attr_update2) (simp add: job_attr_def split: option.splits)

lemma world_completed_get:
  "get_object world_completed ''ingest'' ''uploads/job-1.csv'' = Inr sample_csv"
  by (simp add: get_object_def)

subsection \<open>What the writes of one invocation assign\<close>

lemma validator_writes_finished:
  "list_all (\<lambda>wr. non_null (written wr ''finishedAt'') = terminal (written wr ''status''))
     (new_writes w (snd (validator_handler E now w ev)))"
  by (cases rule: validator_cases [of ev w E now])
     (simp_all add: terminal_def set_attrs_def write_defs)

lemma processor_writes_finished:
  "list_all (\<lambda>wr. non_null (written wr ''finishedAt'') = terminal (written wr ''status''))
     (new_writes w (snd (processor_handler E now w ev)))"
  by (cases rule: processor_cases [of ev w E now])
     (simp_all add: terminal_def set_attrs_def write_defs)

lemma vp_writes_finished:
  "list_all (\<lambda>wr. non_null (written wr ''finishedAt'') = terminal (written wr ''status''))
     (new_writes w (snd (validator_processor_handler E now uuid4 w ev)))"
  by (cases rule: vp_cases [of w E now uuid4 ev])
     (simp_all add: terminal_def set_attrs_def write_defs)

lemma validator_writes_prefix:
  "list_all (\<lambda>wr. non_null (written wr ''s3OutputPrefix'') = successful (written wr ''status''))
     (new_writes w (snd (validator_handler E now w ev)))"
  by (cases rule: validator_cases [of ev w E now])
     (simp_all add: successful_def set_attrs_def write_defs)

lemma processor_writes_prefix:
  "list_all (\<lambda>wr. non_null (written wr ''s3OutputPrefix'') = successful (written wr ''status''))
     (new_writes w (snd (processor_handler E now w ev)))"
  by (cases rule: processor_cases [of ev w E now])
     (simp_all add: successful_def set_attrs_def write_defs)

lemma vp_writes_prefix:
  "list_all (\<lambda>wr. non_null (written wr ''s3OutputPrefix'') = successful (written wr ''status''))
     (new_writes w (snd (validator_processor_handler E now uuid4 w ev)))"
  by (cases rule: vp_cases [of w E now uuid4 ev])
     (simp_all add: successful_def set_attrs_def write_defs)

subsection \<open>The record an invocation leaves\<close>

lemma validator_finished_iff_terminal:
  assumes "StatusStore \<notin> outage w" and "bucket_name rec = Some b" and "object_key rec = Some k"
  shows "finished_iff_terminal (snd (validator_handler E now w (rec # rs))) (job_id_of_key k)"
  using assms
  by (cases rule: validator_cases [of "rec # rs" w E now])
     (simp_all add: finished_iff_terminal_def job_attr_commit terminal_def set_attrs_def write_defs)

lemma vp_finished_iff_terminal:
  assumes "StatusStore \<notin> outage w"
  shows "finished_iff_terminal (snd (validator_processor_handler E now uuid4 w ev))
           (vp_job_id E uuid4 ev)"
  using assms
  by (cases rule: vp_cases [of w E now uuid4 ev])
     (simp_all add: finished_iff_terminal_def job_attr_commit terminal_def set_attrs_def write_defs)

lemma vp_prefix_iff_successful:
  assumes "StatusStore \<notin> outage w"
  shows "prefix_iff_successful (snd (validator_processor_handler E now uuid4 w ev))
           (vp_job_id E uuid4 ev)"
  using assms
  by (cases rule: vp_cases [of w E now uuid4 ev])
     (simp_all add: prefix_iff_successful_def job_attr_commit successful_def set_attrs_def write_defs)

lemma processor_finished_iff_terminal:
  assumes "StatusStore \<notin> outage w" and "\<not> non_null (job_attr w (msg_jobId m) ''finishedAt'')"
  shows "finished_iff_terminal (snd (processor_handler E now w (m # ms))) (msg_jobId m)"
  using assms
  by (cases rule: processor_cases [of "m # ms" w E now])
     (simp_all add: finished_iff_terminal_def job_attr_update_other job_attr_update2_other
        terminal_def set_attrs_def write_defs)

lemma processor_prefix_iff_successful:
  assumes "StatusStore \<notin> outage w" and "\<not> non_null (job_attr w (msg_jobId m) ''s3OutputPrefix'')"
  shows "prefix_iff_successful (snd (processor_handler E now w (m # ms))) (msg_jobId m)"
  using assms
  by (cases rule: processor_cases [of "m # ms" w E now])
     (simp_all add: prefix_iff_successful_def job_attr_update_other job_attr_update2_other
        successful_def set_attrs_def write_defs)

lemma processor_success_has_output:
  assumes "StatusStore \<notin> outage w"
    and "successful (job_attr (snd (processor_handler E now w (m # ms))) (msg_jobId m) ''status'')"
  shows "\<exists>body. objects (snd (processor_handler E now w (m # ms)))
           (msg_bucket m, PROCESSED_PREFIX E @ msg_jobId m @ ''/output.json'') = Some (Content body)"
  using assms
  by (cases rule: processor_cases [of "m # ms" w E now])
     (simp_all add: job_attr_update_other job_attr_update2_other
        successful_def set_attrs_def write_defs)

lemma validator_first_write:
  assumes "StatusStore \<notin> outage w" and "bucket_name rec = Some b" and "object_key rec = Some k"
  shows "hd (new_writes w (snd (validator_handler E now w (rec # rs)))) =
           PutItem (job_id_of_key k) (validating_item now b k)"
  using assms
  by (cases rule: validator_cases [of "rec # rs" w E now]) simp_all

lemma processor_first_write:
  assumes "StatusStore \<notin> outage w"
  shows "hd (new_writes w (snd (processor_handler E now w (m # ms)))) =
           UpdateItem (msg_jobId m) processing_update"
  using assms
  by (cases rule: processor_cases [of "m # ms" w E now]) simp_all

lemma vp_job_id_key:
  "truthy (ev_key E ev) \<Longrightarrow> vp_job_id E uuid4 ev = job_id_of_key (py_str (ev_key E ev))"
  by (simp add: vp_job_id_def)

lemma extract_s3_nothing:
  "ev = [] \<or> object_key (hd ev) = None \<Longrightarrow> ev_bucket E ev = PyNone \<and> ev_key E ev = PyNone"
  by (cases ev) (auto simp: ev_bucket_def ev_key_def extract_s3_def)

lemma sample_result:
  "validate_and_process_csv simple_env sample_csv =
     Inr \<lparr>res_ok = True, res_message = ''Processed'', res_row_count = 2, res_error_count = 1,
          res_records =
            [[(''id'', Str ''1''), (''value'', Str ''10''),
              (''timestamp'', Str ''2024-01-01T00:00:00Z'')]]\<rparr>"
proof -
  have h3: "snd (csv_reader simple_env sample_csv) = None"
    by (simp add: sample_csv_rows)
  show ?thesis
    using vp_valid_header [OF sample_fieldnames required_not_missing h3]
      length_rows_split [of simple_env sample_csv]
    by (simp add: sample_converted sample_invalid_count)
qed

lemma vp_sample_run:
  assumes "objects w (''ingest'', ''uploads/job-1.csv'') = Some (Content sample_csv)"
    and "outage w = {}"
  shows "validator_processor_handler simple_env now u w upload_event =
     (Returned [(''status'', S ''ok''), (''jobId'', S ''job-1''), (''rowCount'', N 2),
                (''errorCount'', N 1)],
      (commit w [PutItem ''job-1'' (job_item simple_env now u upload_event),
                 UpdateItem ''job-1''
                   (vp_success_update simple_env now ''job-1''
                      \<lparr>res_ok = True, res_message = ''Processed'', res_row_count = 2,
                       res_error_count = 1,
                       res_records =
                         [[(''id'', Str ''1''), (''value'', Str ''10''),
                           (''timestamp'', Str ''2024-01-01T00:00:00Z'')]]\<rparr>)])
      \<lparr>objects := (objects w)
         ((''ingest'', ''processed/job-1/output.json'') \<mapsto>
            Content (simple_json_dumps None
              [[(''id'', Str ''1''), (''value'', Str ''10''),
                (''timestamp'', Str ''2024-01-01T00:00:00Z'')]]))\<rparr>)"
proof -
  have g: "get_object w (py_str (ev_bucket simple_env upload_event))
             (py_str (ev_key simple_env upload_event)) = Inr sample_csv"
    using assms(1) by (simp add: upload_event_extract get_object_def)
  show ?thesis
    using vp_written [of w simple_env upload_event sample_csv _ now u, OF _ _ _ g sample_result]
      assms(2)
    by (simp add: upload_event_extract)
qed

lemma bucketless_event_extract:
  "ev_bucket simple_env bucketless_event = PyNone"
  "ev_key simple_env bucketless_event = Str ''uploads/job-1.csv''"
  by (simp_all add: bucketless_event_def ev_bucket_def ev_key_def extract_s3_def simple_env_def
      simple_unquote_plus_def Let_def)

section \<open>The claims\<close>

text \<open>
  C5. With a header that has the three required columns (and a reader that reaches the end
  of the text), both conversion loops return exactly the records of the valid rows, in
  order, and count exactly the invalid rows: the Converter's loop \<open>convert_rows\<close> and the
  monolith's \<open>validate_and_process_csv\<close>. \<open>rowCount\<close> is the number of data rows, the sum
  of the two; a row is valid iff \<open>id\<close>, \<open>value\<close> and \<open>timestamp\<close> are all present and not
  empty (\<open>valid_row\<close>). An invalid row is left out and the rows after it are still
  converted. The Converter records these numbers in the job and writes these records to
  \<open>output.json\<close>.
\<close>

theorem conversion_counts:
  assumes "fieldnames (csv_reader E content) = Inr fns" and "missing_columns fns = []"
    and "snd (csv_reader E content) = None"
  shows "convert_rows (dict_rows (csv_reader E content)) [] 0 =
           Inr (map record_of (filter valid_row (dict_rows (csv_reader E content))),
                int (length (filter (\<lambda>r. \<not> valid_row r) (dict_rows (csv_reader E content)))))
       \<and> (\<exists>res. validate_and_process_csv E content = Inr res \<and>
           res_records res = map record_of (filter valid_row (dict_rows (csv_reader E content))) \<and>
           res_error_count res =
             int (length (filter (\<lambda>r. \<not> valid_row r) (dict_rows (csv_reader E content)))) \<and>
           res_row_count res = int (length (res_records res)) + res_error_count res \<and>
           res_row_count res = int (length (dict_rows (csv_reader E content))))
       \<and> (StatusStore \<notin> outage w \<and> ObjectWrite \<notin> outage w \<and>
          get_object w (msg_bucket m) (msg_key m) = Inr content \<longrightarrow>
            job_attr (snd (processor_handler E now w (m # ms))) (msg_jobId m) ''errorCount'' =
              Some (N (invalid_count E content)) \<and>
            job_attr (snd (processor_handler E now w (m # ms))) (msg_jobId m) ''rowCount'' =
              Some (N (int (length (converted E content)) + invalid_count E content)) \<and>
            objects (snd (processor_handler E now w (m # ms)))
              (msg_bucket m, PROCESSED_PREFIX E @ msg_jobId m @ ''/output.json'') =
              Some (Content (json_dumps E (Some 2) (converted E content))))"
proof (intro conjI impI)
  show "convert_rows (dict_rows (csv_reader E content)) [] 0 =
           Inr (map record_of (filter valid_row (dict_rows (csv_reader E content))),
                int (length (filter (\<lambda>r. \<not> valid_row r) (dict_rows (csv_reader E content)))))"
    by (simp add: convert_rows_eq)
  show "\<exists>res. validate_and_process_csv E content = Inr res \<and>
           res_records res = map record_of (filter valid_row (dict_rows (csv_reader E content))) \<and>
           res_error_count res =
             int (length (filter (\<lambda>r. \<not> valid_row r) (dict_rows (csv_reader E content)))) \<and>
           res_row_count res = int (length (res_records res)) + res_error_count res \<and>
           res_row_count res = int (length (dict_rows (csv_reader E content)))"
    using vp_valid_header [OF assms] length_rows_split [of E content]
    by (simp add: converted_def invalid_count_def)
next
  assume h: "StatusStore \<notin> outage w \<and> ObjectWrite \<notin> outage w \<and>
         get_object w (msg_bucket m) (msg_key m) = Inr content"
  then have run: "processor_handler E now w (m # ms) =
     (Returned [(''status'', S ''ok''), (''jobId'', S (msg_jobId m)),
                (''rowCount'', N (int (length (converted E content)) + invalid_count E content))],
      (commit w [UpdateItem (msg_jobId m) processing_update,
                 UpdateItem (msg_jobId m) (completed_update E now (msg_jobId m) content)])
      \<lparr>objects := (objects w)
         ((msg_bucket m, PROCESSED_PREFIX E @ msg_jobId m @ ''/output.json'') \<mapsto>
            Content (json_dumps E (Some 2) (converted E content)))\<rparr>)"
    using processor_completed [of w m content E now ms] assms(3) by simp
  show "job_attr (snd (processor_handler E now w (m # ms))) (msg_jobId m) ''errorCount'' =
              Some (N (invalid_count E content))"
    by (simp add: run job_attr_commit set_attrs_def write_defs)
  show "job_attr (snd (processor_handler E now w (m # ms))) (msg_jobId m) ''rowCount'' =
              Some (N (int (length (converted E content)) + invalid_count E content))"
    by (simp add: run job_attr_commit set_attrs_def write_defs)
  show "objects (snd (processor_handler E now w (m # ms)))
              (msg_bucket m, PROCESSED_PREFIX E @ msg_jobId m @ ''/output.json'') =
              Some (Content (json_dumps E (Some 2) (converted E content)))"
    by (simp add: run)
qed

theorem conversion_counts_witness:
  "fieldnames (csv_reader simple_env sample_csv) = Inr (Some [''id'', ''value'', ''timestamp'']) \<and>
   missing_columns (Some [''id'', ''value'', ''timestamp'']) = [] \<and>
   snd (csv_reader simple_env sample_csv) = None \<and>
   convert_rows (dict_rows (csv_reader simple_env sample_csv)) [] 0 =
     Inr ([[(''id'', Str ''1''), (''value'', Str ''10''),
            (''timestamp'', Str ''2024-01-01T00:00:00Z'')]], 1) \<and>
   (\<exists>res. validate_and_process_csv simple_env sample_csv = Inr res \<and>
      res_row_count res = 2 \<and> res_error_count res = 1 \<and>
      res_records res =
        [[(''id'', Str ''1''), (''value'', Str ''10''),
          (''timestamp'', Str ''2024-01-01T00:00:00Z'')]]) \<and>
   StatusStore \<notin> outage (upload_world (Content sample_csv)) \<and>
   ObjectWrite \<notin> outage (upload_world (Content sample_csv)) \<and>
   get_object (upload_world (Content sample_csv)) ''ingest'' ''uploads/job-1.csv'' = Inr sample_csv \<and>
   job_attr (snd (processor_handler simple_env (clock ''2024-01-02'')
                    (upload_world (Content sample_csv))
                    [\<lparr>msg_jobId = ''job-1'', msg_bucket = ''ingest'',
                       msg_key = ''uploads/job-1.csv''\<rparr>]))
     ''job-1'' ''errorCount'' = Some (N 1) \<and>
   job_attr (snd (processor_handler simple_env (clock ''2024-01-02'')
                    (upload_world (Content sample_csv))
                    [\<lparr>msg_jobId = ''job-1'', msg_bucket = ''ingest'',
                       msg_key = ''uploads/job-1.csv''\<rparr>]))
     ''job-1'' ''rowCount'' = Some (N 2)"
proof -
  have h3: "snd (csv_reader simple_env sample_csv) = None"
    by (simp add: sample_csv_rows)
  have c: "map record_of (filter valid_row (dict_rows (csv_reader simple_env sample_csv))) =
      [[(''id'', Str ''1''), (''value'', Str ''10''), (''timestamp'', Str ''2024-01-01T00:00:00Z'')]]"
    using sample_converted by (simp add: converted_def)
  have i: "int (length (filter (\<lambda>r. \<not> valid_row r) (dict_rows (csv_reader simple_env sample_csv)))) = 1"
    using sample_invalid_count by (simp add: invalid_count_def)
  show ?thesis
    using conversion_counts [OF sample_fieldnames required_not_missing h3,
        of "upload_world (Content sample_csv)"
           "\<lparr>msg_jobId = ''job-1'', msg_bucket = ''ingest'', msg_key = ''uploads/job-1.csv''\<rparr>"
           "clock ''2024-01-02''" "[]"]
      sample_fieldnames required_not_missing h3
    unfolding c i
    by (auto simp: upload_get_object sample_converted sample_invalid_count)
qed

text \<open>
  C9. When the fetch of the object fails and the status store accepts writes, the
  queue-driven Converter writes \<open>FAILED\<close> with \<open>finishedAt\<close> and a message that carries
  the failure, and lets the exception escape. The monolithic handler, which the upload
  itself triggers, fails the job in the same way but returns a \<open>failed\<close> result instead
  of raising.
\<close>

theorem fetch_failure_fails_job:
  assumes "StatusStore \<notin> outage w"
  shows "(get_object w (msg_bucket m) (msg_key m) = Inl e \<longrightarrow>
            fst (processor_handler E now w (m # ms)) = Raised e \<and>
            job_attr (snd (processor_handler E now w (m # ms))) (msg_jobId m) ''status'' =
              Some (S ''FAILED'') \<and>
            job_attr (snd (processor_handler E now w (m # ms))) (msg_jobId m) ''finishedAt'' =
              Some (S (now 0)) \<and>
            job_attr (snd (processor_handler E now w (m # ms))) (msg_jobId m) ''message'' =
              Some (S (''Could not read file: '' @ e)))
       \<and> (truthy (ev_bucket E ev) \<and> truthy (ev_key E ev) \<and>
          get_object w (py_str (ev_bucket E ev)) (py_str (ev_key E ev)) = Inl e \<longrightarrow>
            fst (validator_processor_handler E now uuid4 w ev) =
              Returned [(''status'', S ''failed''), (''jobId'', S (vp_job_id E uuid4 ev))] \<and>
            job_attr (snd (validator_processor_handler E now uuid4 w ev)) (vp_job_id E uuid4 ev)
              ''status'' = Some (S ''FAILED'') \<and>
            job_attr (snd (validator_processor_handler E now uuid4 w ev)) (vp_job_id E uuid4 ev)
              ''finishedAt'' = Some (S (now 1)) \<and>
            job_attr (snd (validator_processor_handler E now uuid4 w ev)) (vp_job_id E uuid4 ev)
              ''message'' = Some (S (''Failed to read S3 object: '' @ e)))"
proof (intro conjI impI)
  assume f: "get_object w (msg_bucket m) (msg_key m) = Inl e"
  note run = processor_fetch_failed [OF assms f, of E now ms]
  show "fst (processor_handler E now w (m # ms)) = Raised e"
    by (simp add: run)
  show "job_attr (snd (processor_handler E now w (m # ms))) (msg_jobId m) ''status'' =
          Some (S ''FAILED'')"
    by (simp add: run job_attr_update2 set_attrs_def write_defs)
  show "job_attr (snd (processor_handler E now w (m # ms))) (msg_jobId m) ''finishedAt'' =
          Some (S (now 0))"
    by (simp add: run job_attr_update2 set_attrs_def write_defs)
  show "job_attr (snd (processor_handler E now w (m # ms))) (msg_jobId m) ''message'' =
          Some (S (''Could not read file: '' @ e))"
    by (simp add: run job_attr_update2 set_attrs_def write_defs)
next
  assume h: "truthy (ev_bucket E ev) \<and> truthy (ev_key E ev) \<and>
          get_object w (py_str (ev_bucket E ev)) (py_str (ev_key E ev)) = Inl e"
  then have run: "validator_processor_handler E now uuid4 w ev =
     (Returned [(''status'', S ''failed''), (''jobId'', S (vp_job_id E uuid4 ev))],
      commit w [PutItem (vp_job_id E uuid4 ev) (job_item E now uuid4 ev),
                UpdateItem (vp_job_id E uuid4 ev)
                  (vp_failed_update (now 1) (''Failed to read S3 object: '' @ e))])"
    using vp_fetch_failed [OF assms, of E ev e now uuid4] by simp
  show "fst (validator_processor_handler E now uuid4 w ev) =
          Returned [(''status'', S ''failed''), (''jobId'', S (vp_job_id E uuid4 ev))]"
    by (simp add: run)
  show "job_attr (snd (validator_processor_handler E now uuid4 w ev)) (vp_job_id E uuid4 ev)
          ''status'' = Some (S ''FAILED'')"
    by (simp add: run job_attr_commit set_attrs_def write_defs)
  show "job_attr (snd (validator_processor_handler E now uuid4 w ev)) (vp_job_id E uuid4 ev)
          ''finishedAt'' = Some (S (now 1))"
    by (simp add: run job_attr_commit set_attrs_def write_defs)
  show "job_attr (snd (validator_processor_handler E now uuid4 w ev)) (vp_job_id E uuid4 ev)
          ''message'' = Some (S (''Failed to read S3 object: '' @ e))"
    by (simp add: run job_attr_commit set_attrs_def write_defs)
qed

theorem fetch_failure_fails_job_witness:
  "StatusStore \<notin> outage (upload_world (Unreadable ''AccessDenied'')) \<and>
   get_object (upload_world (Unreadable ''AccessDenied'')) ''ingest'' ''uploads/job-1.csv'' =
     Inl ''AccessDenied'' \<and>
   fst (processor_handler simple_env (clock ''2024-01-02'')
          (upload_world (Unreadable ''AccessDenied''))
          [\<lparr>msg_jobId = ''job-1'', msg_bucket = ''ingest'', msg_key = ''uploads/job-1.csv''\<rparr>]) =
     Raised ''AccessDenied'' \<and>
   job_attr (snd (processor_handler simple_env (clock ''2024-01-02'')
          (upload_world (Unreadable ''AccessDenied''))
          [\<lparr>msg_jobId = ''job-1'', msg_bucket = ''ingest'', msg_key = ''uploads/job-1.csv''\<rparr>]))
     ''job-1'' ''status'' = Some (S ''FAILED'') \<and>
   truthy (ev_bucket simple_env upload_event) \<and> truthy (ev_key simple_env upload_event) \<and>
   job_attr (snd (validator_processor_handler simple_env (clock ''2024-01-02'') ''uuid''
          (upload_world (Unreadable ''AccessDenied'')) upload_event))
     ''job-1'' ''status'' = Some (S ''FAILED'') \<and>
   job_attr (snd (validator_processor_handler simple_env (clock ''2024-01-02'') ''uuid''
          (upload_world (Unreadable ''AccessDenied'')) upload_event))
     ''job-1'' ''finishedAt'' = Some (S (clock ''2024-01-02'' 1))"
proof -
  have up: "StatusStore \<notin> outage (upload_world (Unreadable ''AccessDenied''))"
    by simp
  show ?thesis
    using fetch_failure_fails_job [OF up, of
        "\<lparr>msg_jobId = ''job-1'', msg_bucket = ''ingest'', msg_key = ''uploads/job-1.csv''\<rparr>"
        "''AccessDenied''" simple_env "clock ''2024-01-02''" "[]" upload_event "''uuid''"]
    by (simp add: upload_get_object upload_event_extract)
qed

text \<open>
  The claim fails for the monolithic handler: with an unreadable upload it returns.
\<close>

theorem monolith_fetch_failure_returns:
  "get_object (upload_world (Unreadable ''AccessDenied'')) ''ingest'' ''uploads/job-1.csv'' =
     Inl ''AccessDenied'' \<and>
   fst (validator_processor_handler simple_env (clock ''2024-01-01'') ''uuid''
          (upload_world (Unreadable ''AccessDenied'')) upload_event) =
     Returned [(''status'', S ''failed''), (''jobId'', S ''job-1'')]"
  using vp_fetch_failed [of "upload_world (Unreadable ''AccessDenied'')" simple_env upload_event
      "''AccessDenied''" "clock ''2024-01-01''" "''uuid''"]
  by (simp add: upload_get_object upload_event_extract)

text \<open>
  C10. In the monolithic handler, when the event yields no bucket or no key and the
  status store accepts writes, the handler creates the job record in status
  \<open>VALIDATING\<close> and at once updates it to \<open>FAILED\<close> with \<open>finishedAt\<close> and the message
  \<open>Invalid S3 event payload\<close>; these are its only writes, it returns a \<open>failed\<close> result,
  it writes no object and sends no message, and its result does not depend on the
  objects in the store (none is fetched). When no key was extracted the record is keyed
  by the generated UUID; when a key was extracted but no bucket, by the file name of the
  key without its extension.
\<close>

theorem invalid_payload_fails_job:
  assumes "StatusStore \<notin> outage w" and "py_not (ev_bucket E ev) \<or> py_not (ev_key E ev)"
  shows "fst (validator_processor_handler E now uuid4 w ev) =
           Returned [(''status'', S ''failed''), (''jobId'', S (vp_job_id E uuid4 ev))]
       \<and> new_writes w (snd (validator_processor_handler E now uuid4 w ev)) =
           [PutItem (vp_job_id E uuid4 ev) (job_item E now uuid4 ev),
            UpdateItem (vp_job_id E uuid4 ev)
              [(''status'', S ''FAILED''), (''finishedAt'', S (now 1)),
               (''message'', S ''Invalid S3 event payload'')]]
       \<and> written (PutItem (vp_job_id E uuid4 ev) (job_item E now uuid4 ev)) ''status'' =
           Some (S ''VALIDATING'')
       \<and> written (PutItem (vp_job_id E uuid4 ev) (job_item E now uuid4 ev)) ''jobId'' =
           Some (S (vp_job_id E uuid4 ev))
       \<and> job_attr (snd (validator_processor_handler E now uuid4 w ev)) (vp_job_id E uuid4 ev)
           ''status'' = Some (S ''FAILED'')
       \<and> job_attr (snd (validator_processor_handler E now uuid4 w ev)) (vp_job_id E uuid4 ev)
           ''finishedAt'' = Some (S (now 1))
       \<and> job_attr (snd (validator_processor_handler E now uuid4 w ev)) (vp_job_id E uuid4 ev)
           ''message'' = Some (S ''Invalid S3 event payload'')
       \<and> objects (snd (validator_processor_handler E now uuid4 w ev)) = objects w
       \<and> queue (snd (validator_processor_handler E now uuid4 w ev)) = queue w
       \<and> (py_not (ev_key E ev) \<longrightarrow> vp_job_id E uuid4 ev = uuid4)
       \<and> (truthy (ev_key E ev) \<longrightarrow>
            vp_job_id E uuid4 ev = job_id_of_key (py_str (ev_key E ev)))
       \<and> (\<forall>os. fst (validator_processor_handler E now uuid4 (w\<lparr>objects := os\<rparr>) ev) =
                 fst (validator_processor_handler E now uuid4 w ev))"
proof -
  note run = vp_invalid_payload [OF assms, of now uuid4]
  have other: "fst (validator_processor_handler E now uuid4 (w\<lparr>objects := os\<rparr>) ev) =
                 fst (validator_processor_handler E now uuid4 w ev)" for os
    using vp_invalid_payload [of "w\<lparr>objects := os\<rparr>" E ev now uuid4] assms
    by (simp add: run)
  have uuid: "py_not (ev_key E ev) \<longrightarrow> vp_job_id E uuid4 ev = uuid4"
    by (simp add: vp_job_id_def py_not_def)
  have named: "truthy (ev_key E ev) \<longrightarrow>
      vp_job_id E uuid4 ev = job_id_of_key (py_str (ev_key E ev))"
    by (simp add: vp_job_id_def)
  show ?thesis
    using other uuid named
    by (simp add: run job_attr_commit set_attrs_def write_defs)
qed

theorem invalid_payload_fails_job_witness:
  "StatusStore \<notin> outage (upload_world (Content sample_csv)) \<and>
   py_not (ev_key simple_env []) \<and>
   fst (validator_processor_handler simple_env (clock ''2024-01-01'') ''3f2c-uuid''
          (upload_world (Content sample_csv)) []) =
     Returned [(''status'', S ''failed''), (''jobId'', S ''3f2c-uuid'')] \<and>
   job_attr (snd (validator_processor_handler simple_env (clock ''2024-01-01'') ''3f2c-uuid''
          (upload_world (Content sample_csv)) [])) ''3f2c-uuid'' ''status'' = Some (S ''FAILED'') \<and>
   py_not (ev_bucket simple_env [\<lparr>bucket_name = None, object_key = Some ''uploads/job-1.csv''\<rparr>]) \<and>
   truthy (ev_key simple_env [\<lparr>bucket_name = None, object_key = Some ''uploads/job-1.csv''\<rparr>]) \<and>
   fst (validator_processor_handler simple_env (clock ''2024-01-01'') ''3f2c-uuid''
          (upload_world (Content sample_csv))
          [\<lparr>bucket_name = None, object_key = Some ''uploads/job-1.csv''\<rparr>]) =
     Returned [(''status'', S ''failed''), (''jobId'', S ''job-1'')]"
proof -
  let ?ev = "[\<lparr>bucket_name = None, object_key = Some ''uploads/job-1.csv''\<rparr>]"
  have up: "StatusStore \<notin> outage (upload_world (Content sample_csv))"
    by simp
  have k: "py_not (ev_key simple_env [])"
    by (simp add: ev_key_def extract_s3_def py_not_def)
  then have bk: "py_not (ev_bucket simple_env []) \<or> py_not (ev_key simple_env [])"
    by simp
  have j: "vp_job_id simple_env ''3f2c-uuid'' [] = ''3f2c-uuid''"
    by (simp add: vp_job_id_def ev_key_def extract_s3_def)
  have b: "py_not (ev_bucket simple_env ?ev)"
    by (simp add: ev_bucket_def extract_s3_def py_not_def Let_def)
  then have bk2: "py_not (ev_bucket simple_env ?ev) \<or> py_not (ev_key simple_env ?ev)"
    by simp
  have key: "ev_key simple_env ?ev = Str ''uploads/job-1.csv''"
    by (simp add: ev_key_def extract_s3_def simple_env_def simple_unquote_plus_def Let_def)
  have first: "fst (validator_processor_handler simple_env (clock ''2024-01-01'') ''3f2c-uuid''
          (upload_world (Content sample_csv)) []) =
     Returned [(''status'', S ''failed''), (''jobId'', S ''3f2c-uuid'')] \<and>
   job_attr (snd (validator_processor_handler simple_env (clock ''2024-01-01'') ''3f2c-uuid''
          (upload_world (Content sample_csv)) [])) ''3f2c-uuid'' ''status'' = Some (S ''FAILED'')"
    using invalid_payload_fails_job [OF up bk, of "clock ''2024-01-01''" "''3f2c-uuid''"]
    by (simp add: j)
  have second: "fst (validator_processor_handler simple_env (clock ''2024-01-01'') ''3f2c-uuid''
          (upload_world (Content sample_csv)) ?ev) =
     Returned [(''status'', S ''failed''), (''jobId'', S ''job-1'')]"
    using invalid_payload_fails_job [OF up bk2, of "clock ''2024-01-01''" "''3f2c-uuid''"]
    by (simp add: key job_id_sample)
  show ?thesis
    using up k b first second by (simp add: key)
qed

text \<open>
  The claim's keying fails for an event that names the object but not the bucket: the
  payload is rejected, yet the record is keyed by the file name, not by the UUID, and the
  \<open>COMPLETED\<close> record of that job is replaced by a \<open>FAILED\<close> one; no record is created
  under the UUID.
\<close>

theorem bucketless_event_keyed_by_file_name:
  "py_not (ev_bucket simple_env bucketless_event) \<and>
   StatusStore \<notin> outage world_completed \<and>
   job_attr world_completed ''job-1'' ''status'' = Some (S ''COMPLETED'') \<and>
   fst (validator_processor_handler simple_env (clock ''2024-01-03'') ''3f2c-uuid''
          world_completed bucketless_event) =
     Returned [(''status'', S ''failed''), (''jobId'', S ''job-1'')] \<and>
   job_attr (snd (validator_processor_handler simple_env (clock ''2024-01-03'') ''3f2c-uuid''
          world_completed bucketless_event)) ''job-1'' ''status'' = Some (S ''FAILED'') \<and>
   job_attr (snd (validator_processor_handler simple_env (clock ''2024-01-03'') ''3f2c-uuid''
          world_completed bucketless_event)) ''job-1'' ''message'' =
     Some (S ''Invalid S3 event payload'') \<and>
   table (snd (validator_processor_handler simple_env (clock ''2024-01-03'') ''3f2c-uuid''
          world_completed bucketless_event)) ''3f2c-uuid'' = table world_completed ''3f2c-uuid''"
proof -
  have b: "py_not (ev_bucket simple_env bucketless_event)"
    by (simp add: bucketless_event_extract py_not_def)
  have up: "StatusStore \<notin> outage world_completed"
    by simp
  have j: "vp_job_id simple_env ''3f2c-uuid'' bucketless_event = ''job-1''"
    by (simp add: vp_job_id_def bucketless_event_extract job_id_sample)
  have run: "validator_processor_handler simple_env (clock ''2024-01-03'') ''3f2c-uuid''
               world_completed bucketless_event =
     (Returned [(''status'', S ''failed''), (''jobId'', S ''job-1'')],
      commit world_completed
        [PutItem ''job-1'' (job_item simple_env (clock ''2024-01-03'') ''3f2c-uuid'' bucketless_event),
         UpdateItem ''job-1''
           (vp_failed_update (clock ''2024-01-03'' 1) ''Invalid S3 event payload'')])"
    using vp_invalid_payload [of world_completed simple_env bucketless_event
        "clock ''2024-01-03''" "''3f2c-uuid''"] b up
    by (simp add: j)
  show ?thesis
    using b up world_completed_record(1)
    by (simp only: run fst_conv snd_conv)
      (simp add: job_attr_commit set_attrs_def write_defs)
qed

text \<open>
  C4. The two-stage Validator does what the claim says (\<open>validator_missing_columns\<close>
  above: \<open>FAILED\<close>, the missing names in the message, the queue untouched, only
  \<open>fieldnames\<close> read). The monolithic handler does not: \<open>validate_and_process_csv\<close> reports
  the missing column with \<open>ok = False\<close>, but the handler never reads \<open>ok\<close> and finalizes
  the job as \<open>COMPLETED\<close>.
\<close>

theorem monolith_completes_missing_column:
  "fst (validator_processor_handler simple_env (clock ''2024-01-01'') ''uuid''
          (upload_world (Content no_timestamp_csv)) upload_event) =
     Returned [(''status'', S ''ok''), (''jobId'', S ''job-1''), (''rowCount'', N 0),
               (''errorCount'', N 0)] \<and>
   job_attr (snd (validator_processor_handler simple_env (clock ''2024-01-01'') ''uuid''
          (upload_world (Content no_timestamp_csv)) upload_event)) ''job-1'' ''status'' =
     Some (S ''COMPLETED'') \<and>
   job_attr (snd (validator_processor_handler simple_env (clock ''2024-01-01'') ''uuid''
          (upload_world (Content no_timestamp_csv)) upload_event)) ''job-1'' ''message'' =
     Some (S (''Missing required columns: '' @ py_repr_list [''timestamp'']))"
proof -
  have run: "validator_processor_handler simple_env (clock ''2024-01-01'') ''uuid''
          (upload_world (Content no_timestamp_csv)) upload_event =
     (Returned [(''status'', S ''ok''), (''jobId'', S ''job-1''), (''rowCount'', N 0),
                (''errorCount'', N 0)],
      commit (upload_world (Content no_timestamp_csv))
        [PutItem ''job-1'' (job_item simple_env (clock ''2024-01-01'') ''uuid'' upload_event),
         UpdateItem ''job-1''
           (vp_success_update simple_env (clock ''2024-01-01'') ''job-1''
              \<lparr>res_ok = False,
               res_message = ''Missing required columns: '' @ py_repr_list [''timestamp''],
               res_row_count = 0, res_error_count = 0, res_records = []\<rparr>)])"
    using vp_unwritten [of "upload_world (Content no_timestamp_csv)" simple_env upload_event
        no_timestamp_csv _ "clock ''2024-01-01''" "''uuid''", OF _ _ _ _ no_timestamp_result]
    by (simp add: upload_event_extract upload_get_object)
  show ?thesis
    unfolding run by (simp add: job_attr_commit set_attrs_def write_defs)
qed

text \<open>
  What the Validator does with a header that misses a required column: the job ends
  \<open>FAILED\<close> with \<open>finishedAt\<close>, the message lists exactly the missing names, nothing is
  queued, and only the reader's first row (\<open>fieldnames\<close>) decides.
\<close>

lemma validator_rejects_missing_columns:
  assumes "bucket_name rec = Some b" and "object_key rec = Some k" and "StatusStore \<notin> outage w"
    and "get_object w b k = Inr content" and "fieldnames (csv_reader E content) = Inr fns"
    and "missing_columns fns \<noteq> []"
  shows "fst (validator_handler E now w (rec # rs)) =
           Returned [(''status'', S ''failed''), (''jobId'', S (job_id_of_key k))]
       \<and> job_attr (snd (validator_handler E now w (rec # rs))) (job_id_of_key k) ''status'' =
           Some (S ''FAILED'')
       \<and> job_attr (snd (validator_handler E now w (rec # rs))) (job_id_of_key k) ''finishedAt'' =
           Some (S (now 1))
       \<and> job_attr (snd (validator_handler E now w (rec # rs))) (job_id_of_key k) ''message'' =
           Some (S (''Missing required columns: '' @ py_repr_list (missing_columns fns)))
       \<and> queue (snd (validator_handler E now w (rec # rs))) = queue w
       \<and> set (missing_columns fns) =
           {c \<in> set REQUIRED_COLUMNS. c \<notin> set (case fns of None \<Rightarrow> [] | Some h \<Rightarrow> h)}"
  by (simp add: validator_missing_columns [OF assms] job_attr_commit set_attrs_def write_defs)
     (auto simp: missing_columns_def)

text \<open>
  C3. The queue-driven Converter writes \<open>COMPLETED\<close> whenever it returns, whatever the
  error count it records; the monolithic handler writes \<open>COMPLETED\<close> when the error count
  it records is zero and \<open>COMPLETED_WITH_ERRORS\<close> otherwise.
\<close>

theorem finalizing_status:
  "(fst (processor_handler E now w ev) = Returned r \<longrightarrow>
      (\<exists>m ms n. ev = m # ms \<and>
         job_attr (snd (processor_handler E now w ev)) (msg_jobId m) ''errorCount'' = Some (N n) \<and>
         job_attr (snd (processor_handler E now w ev)) (msg_jobId m) ''status'' =
           Some (S ''COMPLETED'')))
   \<and> (fst (validator_processor_handler E now uuid4 w ev') = Returned r' \<and>
       map_of r' ''status'' = Some (S ''ok'') \<longrightarrow>
      (\<exists>n. job_attr (snd (validator_processor_handler E now uuid4 w ev')) (vp_job_id E uuid4 ev')
              ''errorCount'' = Some (N n) \<and>
           job_attr (snd (validator_processor_handler E now uuid4 w ev')) (vp_job_id E uuid4 ev')
              ''status'' =
             Some (S (if n = 0 then ''COMPLETED'' else ''COMPLETED_WITH_ERRORS''))))"
proof (intro conjI impI)
  assume ret: "fst (processor_handler E now w ev) = Returned r"
  show "\<exists>m ms n. ev = m # ms \<and>
         job_attr (snd (processor_handler E now w ev)) (msg_jobId m) ''errorCount'' = Some (N n) \<and>
         job_attr (snd (processor_handler E now w ev)) (msg_jobId m) ''status'' =
           Some (S ''COMPLETED'')"
  proof (cases rule: processor_cases [of ev w E now])
    case (raised e)
    with ret show ?thesis by simp
  next
    case (fetch_failed m ms e)
    with ret show ?thesis by simp
  next
    case (raised_processing m ms e content)
    with ret show ?thesis by simp
  next
    case (completed m ms content)
    show ?thesis
      unfolding completed(6)
      using completed(1)
      by (simp add: job_attr_update2 set_attrs_def write_defs)
  qed
next
  assume ret: "fst (validator_processor_handler E now uuid4 w ev') = Returned r' \<and>
       map_of r' ''status'' = Some (S ''ok'')"
  show "\<exists>n. job_attr (snd (validator_processor_handler E now uuid4 w ev')) (vp_job_id E uuid4 ev')
              ''errorCount'' = Some (N n) \<and>
           job_attr (snd (validator_processor_handler E now uuid4 w ev')) (vp_job_id E uuid4 ev')
              ''status'' =
             Some (S (if n = 0 then ''COMPLETED'' else ''COMPLETED_WITH_ERRORS''))"
  proof (cases rule: vp_cases [of w E now uuid4 ev'])
    case (store_down msg)
    with ret show ?thesis by auto
  next
    case (failed msg)
    with ret show ?thesis by auto
  next
    case (written body result)
    show ?thesis
      unfolding written(5)
      by (simp add: job_attr_commit set_attrs_def write_defs)
  next
    case (unwritten body result)
    show ?thesis
      unfolding unwritten(4)
      by (simp add: job_attr_commit set_attrs_def write_defs)
  qed
qed

theorem converter_completed_with_row_errors:
  "fst (processor_handler simple_env (clock ''2024-01-02'') world_validated upload_message) =
     Returned [(''status'', S ''ok''), (''jobId'', S ''job-1''), (''rowCount'', N 2)] \<and>
   job_attr (snd (processor_handler simple_env (clock ''2024-01-02'') world_validated
                    upload_message)) ''job-1'' ''errorCount'' = Some (N 1) \<and>
   job_attr (snd (processor_handler simple_env (clock ''2024-01-02'') world_validated
                    upload_message)) ''job-1'' ''status'' = Some (S ''COMPLETED'')"
proof -
  have run: "fst (processor_handler simple_env (clock ''2024-01-02'') world_validated upload_message) =
     Returned [(''status'', S ''ok''), (''jobId'', S ''job-1''), (''rowCount'', N 2)]"
    unfolding upload_message_def
    using processor_completed [of world_validated
      "\<lparr>msg_jobId = ''job-1'', msg_bucket = ''ingest'', msg_key = ''uploads/job-1.csv''\<rparr>"
      sample_csv simple_env "clock ''2024-01-02''" "[]"]
    by (simp add: get_object_def sample_csv_rows sample_converted sample_invalid_count)
  show ?thesis
    using run world_completed_record by (simp add: world_completed_def)
qed

theorem finalizing_status_witness:
  "fst (processor_handler simple_env (clock ''2024-01-02'') world_validated upload_message) =
     Returned [(''status'', S ''ok''), (''jobId'', S ''job-1''), (''rowCount'', N 2)] \<and>
   (\<exists>m ms n. upload_message = m # ms \<and>
      job_attr (snd (processor_handler simple_env (clock ''2024-01-02'') world_validated
                       upload_message)) (msg_jobId m) ''errorCount'' = Some (N n) \<and>
      job_attr (snd (processor_handler simple_env (clock ''2024-01-02'') world_validated
                       upload_message)) (msg_jobId m) ''status'' = Some (S ''COMPLETED'')) \<and>
   fst (validator_processor_handler simple_env (clock ''2024-01-02'') ''uuid''
          world_validated upload_event) =
     Returned [(''status'', S ''ok''), (''jobId'', S ''job-1''), (''rowCount'', N 2),
               (''errorCount'', N 1)] \<and>
   (\<exists>n. job_attr (snd (validator_processor_handler simple_env (clock ''2024-01-02'') ''uuid''
                         world_validated upload_event))
           ''job-1'' ''errorCount'' = Some (N n) \<and>
        job_attr (snd (validator_processor_handler simple_env (clock ''2024-01-02'') ''uuid''
                         world_validated upload_event))
           ''job-1'' ''status'' =
          Some (S (if n = 0 then ''COMPLETED'' else ''COMPLETED_WITH_ERRORS'')))"
proof -
  have run: "fst (processor_handler simple_env (clock ''2024-01-02'') world_validated upload_message) =
     Returned [(''status'', S ''ok''), (''jobId'', S ''job-1''), (''rowCount'', N 2)]"
    unfolding upload_message_def
    using processor_completed [of world_validated
      "\<lparr>msg_jobId = ''job-1'', msg_bucket = ''ingest'', msg_key = ''uploads/job-1.csv''\<rparr>"
      sample_csv simple_env "clock ''2024-01-02''" "[]"]
    by (simp add: get_object_def sample_csv_rows sample_converted sample_invalid_count)
  have run': "fst (validator_processor_handler simple_env (clock ''2024-01-02'') ''uuid''
          world_validated upload_event) =
     Returned [(''status'', S ''ok''), (''jobId'', S ''job-1''), (''rowCount'', N 2),
               (''errorCount'', N 1)]"
    by (simp add: vp_sample_run)
  show ?thesis
    using finalizing_status [of simple_env "clock ''2024-01-02''" world_validated upload_message
        "[(''status'', S ''ok''), (''jobId'', S ''job-1''), (''rowCount'', N 2)]" "''uuid''"
        upload_event
        "[(''status'', S ''ok''), (''jobId'', S ''job-1''), (''rowCount'', N 2), (''errorCount'', N 1)]"]
      run run'
    by (simp add: upload_event_extract)
qed

text \<open>
  C1. Within one invocation, a write that assigns a terminal status (\<open>FAILED\<close>,
  \<open>COMPLETED\<close>, \<open>COMPLETED_WITH_ERRORS\<close>) is the invocation's last write to the jobs
  table, for each of the three handlers. A terminal record is not protected from a later
  invocation: whatever the table holds, the Validator's first write puts the record anew
  in status \<open>VALIDATING\<close>, and the Converter's first write updates it to \<open>PROCESSING\<close>.
\<close>

theorem terminal_write_is_last:
  "terminal_last (new_writes w (snd (validator_handler E now w ev)))
   \<and> terminal_last (new_writes w (snd (processor_handler E now w qev)))
   \<and> terminal_last (new_writes w (snd (validator_processor_handler E now uuid4 w ev)))
   \<and> (StatusStore \<notin> outage w \<and> bucket_name rec = Some b \<and> object_key rec = Some k \<longrightarrow>
        hd (new_writes w (snd (validator_handler E now w (rec # rs)))) =
          PutItem (job_id_of_key k)
            [(''jobId'', S (job_id_of_key k)), (''status'', S ''VALIDATING''),
             (''s3Source'', S (''s3://'' @ b @ ''/'' @ k)), (''startedAt'', S (now 0)),
             (''message'', S ''Validating CSV structure'')])
   \<and> (StatusStore \<notin> outage w \<longrightarrow>
        hd (new_writes w (snd (processor_handler E now w (m # ms)))) =
          UpdateItem (msg_jobId m)
            [(''status'', S ''PROCESSING''), (''message'', S ''Converting CSV to JSON'')])"
  using validator_terminal_last [of w E now ev] processor_terminal_last [of w E now qev]
    vp_terminal_last [of w E now uuid4 ev]
    validator_first_write [of w rec b k E now rs] processor_first_write [of w E now m ms]
  by (simp add: write_defs)

theorem terminal_write_is_last_witness:
  "StatusStore \<notin> outage world_completed \<and>
   job_attr world_completed ''job-1'' ''status'' = Some (S ''COMPLETED'') \<and>
   hd (new_writes world_completed
         (snd (validator_handler simple_env (clock ''2024-01-03'') world_completed
                 [\<lparr>bucket_name = Some ''ingest'', object_key = Some ''uploads/job-1.csv''\<rparr>]))) =
     PutItem ''job-1''
       [(''jobId'', S ''job-1''), (''status'', S ''VALIDATING''),
        (''s3Source'', S ''s3://ingest/uploads/job-1.csv''),
        (''startedAt'', S (clock ''2024-01-03'' 0)),
        (''message'', S ''Validating CSV structure'')] \<and>
   hd (new_writes world_completed
         (snd (processor_handler simple_env (clock ''2024-01-03'') world_completed
                 [\<lparr>msg_jobId = ''job-1'', msg_bucket = ''ingest'',
                    msg_key = ''uploads/job-1.csv''\<rparr>]))) =
     UpdateItem ''job-1'' [(''status'', S ''PROCESSING''), (''message'', S ''Converting CSV to JSON'')]"
  using terminal_write_is_last [of world_completed simple_env "clock ''2024-01-03''" "[]" "[]"
      "''uuid''" "\<lparr>bucket_name = Some ''ingest'', object_key = Some ''uploads/job-1.csv''\<rparr>"
      "''ingest''" "''uploads/job-1.csv''" "[]"
      "\<lparr>msg_jobId = ''job-1'', msg_bucket = ''ingest'', msg_key = ''uploads/job-1.csv''\<rparr>" "[]"]
    world_completed_record(1)
  by (simp add: job_id_sample)

text \<open>
  The claim fails across invocations: after the job of \<open>sample_csv\<close> is \<open>COMPLETED\<close>, a
  second upload event for the same object leaves it \<open>PENDING\<close>.
\<close>

theorem terminal_record_restarted:
  "job_attr world_completed ''job-1'' ''status'' = Some (S ''COMPLETED'') \<and>
   job_attr (snd (validator_handler simple_env (clock ''2024-01-03'') world_completed upload_event))
     ''job-1'' ''status'' = Some (S ''PENDING'')"
proof -
  have run: "validator_handler simple_env (clock ''2024-01-03'') world_completed upload_event =
     (Returned [(''status'', S ''ok''), (''jobId'', S ''job-1'')],
      (commit world_completed
         [PutItem ''job-1'' (validating_item (clock ''2024-01-03'') ''ingest'' ''uploads/job-1.csv''),
          UpdateItem ''job-1'' pending_update])
      \<lparr>queue := queue world_completed @ upload_message\<rparr>)"
    unfolding upload_event_def
    using validator_pending [of "\<lparr>bucket_name = Some ''ingest'', object_key = Some ''uploads/job-1.csv''\<rparr>"
        "''ingest''" "''uploads/job-1.csv''" world_completed sample_csv simple_env
        "Some [''id'', ''value'', ''timestamp'']" "clock ''2024-01-03''" "[]"]
      sample_fieldnames required_not_missing
    by (simp add: world_completed_get job_id_sample upload_message_def)
  show ?thesis
    unfolding run
    by (simp add: world_completed_record job_attr_commit set_attrs_def write_defs)
qed

text \<open>
  C8. Every write of a terminal status assigns \<open>finishedAt\<close> a timestamp, and no write of
  another status assigns it one (the monolith's initial put assigns \<open>NULL\<close>). So the
  record the Validator or the monolithic handler leaves has \<open>finishedAt\<close> set iff its
  status is terminal; and so has the record the Converter leaves, provided \<open>finishedAt\<close>
  was not set when the Converter started: its \<open>PROCESSING\<close> update keeps the
  \<open>finishedAt\<close> of an earlier run.
\<close>

theorem finished_at_iff_terminal:
  "list_all (\<lambda>wr. non_null (written wr ''finishedAt'') = terminal (written wr ''status''))
     (new_writes w (snd (validator_handler E now w ev)))
   \<and> list_all (\<lambda>wr. non_null (written wr ''finishedAt'') = terminal (written wr ''status''))
     (new_writes w (snd (processor_handler E now w qev)))
   \<and> list_all (\<lambda>wr. non_null (written wr ''finishedAt'') = terminal (written wr ''status''))
     (new_writes w (snd (validator_processor_handler E now uuid4 w ev)))
   \<and> (StatusStore \<notin> outage w \<and> bucket_name rec = Some b \<and> object_key rec = Some k \<longrightarrow>
        finished_iff_terminal (snd (validator_handler E now w (rec # rs))) (job_id_of_key k))
   \<and> (StatusStore \<notin> outage w \<longrightarrow>
        finished_iff_terminal (snd (validator_processor_handler E now uuid4 w ev))
          (vp_job_id E uuid4 ev))
   \<and> (StatusStore \<notin> outage w \<and> \<not> non_null (job_attr w (msg_jobId m) ''finishedAt'') \<longrightarrow>
        finished_iff_terminal (snd (processor_handler E now w (m # ms))) (msg_jobId m))"
  using validator_writes_finished [of w E now ev] processor_writes_finished [of w E now qev]
    vp_writes_finished [of w E now uuid4 ev]
    validator_finished_iff_terminal [of w rec b k E now rs]
    vp_finished_iff_terminal [of w E now uuid4 ev]
    processor_finished_iff_terminal [of w m E now ms]
  by simp

theorem finished_at_iff_terminal_witness:
  "StatusStore \<notin> outage world_validated \<and>
   \<not> non_null (job_attr world_validated ''job-1'' ''finishedAt'') \<and>
   finished_iff_terminal world_completed ''job-1'' \<and>
   terminal (job_attr world_completed ''job-1'' ''status'') \<and>
   finished_iff_terminal
     (snd (validator_handler simple_env (clock ''2024-01-02'') world_validated
             [\<lparr>bucket_name = Some ''ingest'', object_key = Some ''uploads/job-1.csv''\<rparr>]))
     ''job-1'' \<and>
   finished_iff_terminal
     (snd (validator_processor_handler simple_env (clock ''2024-01-02'') ''uuid'' world_validated
             upload_event))
     ''job-1''"
proof -
  have pre: "\<not> non_null (job_attr world_validated ''job-1'' ''finishedAt'')"
    by (simp add: world_validated_eq job_attr_commit set_attrs_def write_defs)
  show ?thesis
    using finished_at_iff_terminal [of world_validated simple_env "clock ''2024-01-02''"
      upload_event "[]" "''uuid''"
      "\<lparr>bucket_name = Some ''ingest'', object_key = Some ''uploads/job-1.csv''\<rparr>"
      "''ingest''" "''uploads/job-1.csv''" "[]"
      "\<lparr>msg_jobId = ''job-1'', msg_bucket = ''ingest'', msg_key = ''uploads/job-1.csv''\<rparr>" "[]"]
      pre world_completed_record(1)
    by (simp add: world_completed_def upload_message_def terminal_def job_id_sample
        upload_event_extract)
qed

text \<open>
  The claim fails for a redelivered message: the job is \<open>COMPLETED\<close>, the message is
  delivered again while the object store rejects the output write, and the record is left
  in \<open>PROCESSING\<close> with the \<open>finishedAt\<close> of the first run.
\<close>

theorem processing_keeps_finished_at:
  "job_attr (snd (processor_handler simple_env (clock ''2024-01-03'')
                    (world_completed\<lparr>outage := {ObjectWrite}\<rparr>) upload_message))
     ''job-1'' ''status'' = Some (S ''PROCESSING'') \<and>
   job_attr (snd (processor_handler simple_env (clock ''2024-01-03'')
                    (world_completed\<lparr>outage := {ObjectWrite}\<rparr>) upload_message))
     ''job-1'' ''finishedAt'' = Some (S (clock ''2024-01-02'' 0))"
proof -
  have run: "processor_handler simple_env (clock ''2024-01-03'')
                    (world_completed\<lparr>outage := {ObjectWrite}\<rparr>) upload_message =
     (Raised ''object store rejects the write'',
      commit (world_completed\<lparr>outage := {ObjectWrite}\<rparr>) [UpdateItem ''job-1'' processing_update])"
    unfolding upload_message_def
    using processor_put_denied [of "world_completed\<lparr>outage := {ObjectWrite}\<rparr>"
      "\<lparr>msg_jobId = ''job-1'', msg_bucket = ''ingest'', msg_key = ''uploads/job-1.csv''\<rparr>"
      sample_csv simple_env "clock ''2024-01-03''" "[]"]
    by (simp add: get_object_def sample_csv_rows)
  show ?thesis
    unfolding run
    by (simp add: job_attr_update_other set_attrs_def write_defs world_completed_record)
qed

text \<open>
  C2. A write assigns \<open>s3OutputPrefix\<close> a value exactly when it assigns a successful
  terminal status. So the record the monolithic handler leaves has the prefix set iff its
  status is \<open>COMPLETED\<close> or \<open>COMPLETED_WITH_ERRORS\<close>, and so has the record the Converter
  leaves when the prefix was not set before it ran, whatever the number of valid records;
  a \<open>FAILED\<close> write does not set it. When the Converter leaves a successful status it has
  written \<open>output.json\<close>.
\<close>

theorem output_prefix_iff_successful:
  "list_all (\<lambda>wr. non_null (written wr ''s3OutputPrefix'') = successful (written wr ''status''))
     (new_writes w (snd (validator_handler E now w ev)))
   \<and> list_all (\<lambda>wr. non_null (written wr ''s3OutputPrefix'') = successful (written wr ''status''))
     (new_writes w (snd (processor_handler E now w qev)))
   \<and> list_all (\<lambda>wr. non_null (written wr ''s3OutputPrefix'') = successful (written wr ''status''))
     (new_writes w (snd (validator_processor_handler E now uuid4 w ev)))
   \<and> (StatusStore \<notin> outage w \<longrightarrow>
        prefix_iff_successful (snd (validator_processor_handler E now uuid4 w ev))
          (vp_job_id E uuid4 ev))
   \<and> (StatusStore \<notin> outage w \<and> \<not> non_null (job_attr w (msg_jobId m) ''s3OutputPrefix'') \<longrightarrow>
        prefix_iff_successful (snd (processor_handler E now w (m # ms))) (msg_jobId m))
   \<and> (StatusStore \<notin> outage w \<and>
       successful (job_attr (snd (processor_handler E now w (m # ms))) (msg_jobId m) ''status'') \<longrightarrow>
        (\<exists>body. objects (snd (processor_handler E now w (m # ms)))
           (msg_bucket m, PROCESSED_PREFIX E @ msg_jobId m @ ''/output.json'') =
             Some (Content body)))"
  using validator_writes_prefix [of w E now ev] processor_writes_prefix [of w E now qev]
    vp_writes_prefix [of w E now uuid4 ev]
    vp_prefix_iff_successful [of w E now uuid4 ev]
    processor_prefix_iff_successful [of w m E now ms]
    processor_success_has_output [of w E now m ms]
  by simp

theorem output_prefix_iff_successful_witness:
  "StatusStore \<notin> outage world_validated \<and>
   \<not> non_null (job_attr world_validated ''job-1'' ''s3OutputPrefix'') \<and>
   prefix_iff_successful world_completed ''job-1'' \<and>
   successful (job_attr world_completed ''job-1'' ''status'') \<and>
   (\<exists>body. objects world_completed (''ingest'', ''processed/job-1/output.json'') =
      Some (Content body)) \<and>
   prefix_iff_successful
     (snd (validator_processor_handler simple_env (clock ''2024-01-02'') ''uuid'' world_validated
             upload_event))
     ''job-1''"
proof -
  have pre: "\<not> non_null (job_attr world_validated ''job-1'' ''s3OutputPrefix'')"
    by (simp add: world_validated_eq job_attr_commit set_attrs_def write_defs)
  show ?thesis
    using output_prefix_iff_successful [of world_validated simple_env "clock ''2024-01-02''"
      upload_event "[]" "''uuid''"
      "\<lparr>msg_jobId = ''job-1'', msg_bucket = ''ingest'', msg_key = ''uploads/job-1.csv''\<rparr>" "[]"]
      pre world_completed_record(1)
    by (simp add: world_completed_def upload_message_def successful_def upload_event_extract)
qed

text \<open>
  The claim fails when no row is valid: the Converter still completes the job and sets
  the prefix, having written the empty array.
\<close>

theorem prefix_set_without_valid_records:
  "converted simple_env empty_value_csv = [] \<and>
   job_attr (snd (processor_handler simple_env (clock ''2024-01-02'')
                    (upload_world (Content empty_value_csv)) upload_message))
     ''job-1'' ''status'' = Some (S ''COMPLETED'') \<and>
   job_attr (snd (processor_handler simple_env (clock ''2024-01-02'')
                    (upload_world (Content empty_value_csv)) upload_message))
     ''job-1'' ''s3OutputPrefix'' = Some (S ''processed/job-1/'') \<and>
   objects (snd (processor_handler simple_env (clock ''2024-01-02'')
                    (upload_world (Content empty_value_csv)) upload_message))
     (''ingest'', ''processed/job-1/output.json'') = Some (Content ''[]'')"
proof -
  have run: "processor_handler simple_env (clock ''2024-01-02'')
                    (upload_world (Content empty_value_csv)) upload_message =
     (Returned [(''status'', S ''ok''), (''jobId'', S ''job-1''), (''rowCount'', N 1)],
      (commit (upload_world (Content empty_value_csv))
         [UpdateItem ''job-1'' processing_update,
          UpdateItem ''job-1''
            (completed_update simple_env (clock ''2024-01-02'') ''job-1'' empty_value_csv)])
      \<lparr>objects := (objects (upload_world (Content empty_value_csv)))
         ((''ingest'', ''processed/job-1/output.json'') \<mapsto> Content ''[]'')\<rparr>)"
    unfolding upload_message_def
    using processor_completed [of "upload_world (Content empty_value_csv)"
      "\<lparr>msg_jobId = ''job-1'', msg_bucket = ''ingest'', msg_key = ''uploads/job-1.csv''\<rparr>"
      empty_value_csv simple_env "clock ''2024-01-02''" "[]"]
    by (simp add: upload_get_object empty_value_csv_rows empty_value_converted
        empty_value_invalid_count simple_json_dumps_def)
  show ?thesis
    unfolding run
    by (simp add: empty_value_converted job_attr_update2 set_attrs_def write_defs)
qed

text \<open>
  C7. Redelivery to the Converter is idempotent. Let the Converter handle a message in
  world \<open>w\<close>, and let it handle the same message again, with another clock, in the world
  the first invocation left. If the first invocation left the source object as it was,
  the second one ends with the same result, the same status in the job record (also the
  same \<open>rowCount\<close>, \<open>errorCount\<close> and output prefix) and the same objects in the store, so
  the output object has the same content.
\<close>

theorem redelivery_idempotent:
  assumes "objects (snd (processor_handler E now w (m # ms))) (msg_bucket m, msg_key m) =
           objects w (msg_bucket m, msg_key m)"
  shows "fst (processor_handler E now' (snd (processor_handler E now w (m # ms))) (m # ms)) =
           fst (processor_handler E now w (m # ms))
       \<and> job_attr (snd (processor_handler E now' (snd (processor_handler E now w (m # ms))) (m # ms)))
           (msg_jobId m) ''status'' =
         job_attr (snd (processor_handler E now w (m # ms))) (msg_jobId m) ''status''
       \<and> job_attr (snd (processor_handler E now' (snd (processor_handler E now w (m # ms))) (m # ms)))
           (msg_jobId m) ''rowCount'' =
         job_attr (snd (processor_handler E now w (m # ms))) (msg_jobId m) ''rowCount''
       \<and> job_attr (snd (processor_handler E now' (snd (processor_handler E now w (m # ms))) (m # ms)))
           (msg_jobId m) ''errorCount'' =
         job_attr (snd (processor_handler E now w (m # ms))) (msg_jobId m) ''errorCount''
       \<and> job_attr (snd (processor_handler E now' (snd (processor_handler E now w (m # ms))) (m # ms)))
           (msg_jobId m) ''s3OutputPrefix'' =
         job_attr (snd (processor_handler E now w (m # ms))) (msg_jobId m) ''s3OutputPrefix''
       \<and> objects (snd (processor_handler E now' (snd (processor_handler E now w (m # ms))) (m # ms))) =
         objects (snd (processor_handler E now w (m # ms)))"
proof (cases rule: processor_cases [of "m # ms" w E now])
  case (raised e)
  then have down: "StatusStore \<in> outage w" by simp
  show ?thesis
    by (simp add: processor_store_down [OF down])
next
  case (fetch_failed m' ms' e)
  then have run: "processor_handler E now w (m # ms) =
         (Raised e,
          commit w [UpdateItem (msg_jobId m) processing_update,
                    UpdateItem (msg_jobId m) (failed_update (''Could not read file: '' @ e) (now 0))])"
    and f: "get_object w (msg_bucket m) (msg_key m) = Inl e"
    by simp_all
  let ?w1 = "commit w [UpdateItem (msg_jobId m) processing_update,
                    UpdateItem (msg_jobId m) (failed_update (''Could not read file: '' @ e) (now 0))]"
  have up1: "StatusStore \<notin> outage ?w1" using fetch_failed(2) by simp
  have f1: "get_object ?w1 (msg_bucket m) (msg_key m) = Inl e"
    using f by (simp add: get_object_def)
  note run1 = processor_fetch_failed [OF up1 f1, of E now' ms]
  show ?thesis
    by (simp only: run fst_conv snd_conv run1)
       (simp add: job_attr_update2_other set_attrs_def write_defs)
next
  case (raised_processing m' ms' e content)
  then have run: "processor_handler E now w (m # ms) =
         (Raised e, commit w [UpdateItem (msg_jobId m) processing_update])"
    and c: "get_object w (msg_bucket m) (msg_key m) = Inr content"
    by simp_all
  let ?w1 = "commit w [UpdateItem (msg_jobId m) processing_update]"
  have up1: "StatusStore \<notin> outage ?w1" using raised_processing(2) by simp
  have c1: "get_object ?w1 (msg_bucket m) (msg_key m) = Inr content"
    using c by (simp add: get_object_def)
  have e: "e = (case snd (csv_reader E content) of Some x \<Rightarrow> x
                | None \<Rightarrow> ''object store rejects the write'')"
  proof (cases "snd (csv_reader E content)")
    case (Some x)
    show ?thesis
      using processor_csv_error [OF raised_processing(2) c Some, of now ms] run Some by simp
  next
    case None
    with raised_processing(4) have d: "ObjectWrite \<in> outage w" by simp
    show ?thesis
      using processor_put_denied [OF raised_processing(2) c None d, of now ms] run None by simp
  qed
  have run1: "processor_handler E now' ?w1 (m # ms) =
         (Raised e, commit ?w1 [UpdateItem (msg_jobId m) processing_update])"
  proof (cases "snd (csv_reader E content)")
    case (Some x)
    show ?thesis
      using processor_csv_error [OF up1 c1 Some, of now' ms] e Some by simp
  next
    case None
    with raised_processing(4) have d: "ObjectWrite \<in> outage ?w1" by simp
    show ?thesis
      using processor_put_denied [OF up1 c1 None d, of now' ms] e None by simp
  qed
  show ?thesis
    by (simp only: run fst_conv snd_conv run1)
       (simp add: job_attr_update_other set_attrs_def write_defs)
next
  case (completed m' ms' content)
  let ?out = "(msg_bucket m, PROCESSED_PREFIX E @ msg_jobId m @ ''/output.json'')"
  let ?body = "Content (json_dumps E (Some 2) (converted E content))"
  let ?w1 = "(commit w [UpdateItem (msg_jobId m) processing_update,
                     UpdateItem (msg_jobId m) (completed_update E now (msg_jobId m) content)])
          \<lparr>objects := (objects w)(?out \<mapsto> ?body)\<rparr>"
  from completed have run: "processor_handler E now w (m # ms) =
         (Returned [(''status'', S ''ok''), (''jobId'', S (msg_jobId m)),
                    (''rowCount'', N (int (length (converted E content)) + invalid_count E content))],
          ?w1)"
    and c: "get_object w (msg_bucket m) (msg_key m) = Inr content"
    by simp_all
  have up1: "StatusStore \<notin> outage ?w1" using completed(2) by simp
  have ow1: "ObjectWrite \<notin> outage ?w1" using completed(5) by simp
  have same: "objects ?w1 (msg_bucket m, msg_key m) = objects w (msg_bucket m, msg_key m)"
    using assms unfolding run by simp
  have c1: "get_object ?w1 (msg_bucket m) (msg_key m) = Inr content"
    using get_object_cong [OF same] c by simp
  note run1 = processor_completed [OF up1 c1 completed(4) ow1, of now' ms]
  show ?thesis
    by (simp only: run fst_conv snd_conv run1)
       (simp add: job_attr_update2_other set_attrs_def write_defs)
qed

theorem redelivery_idempotent_witness:
  "objects world_completed (''ingest'', ''uploads/job-1.csv'') =
     objects world_validated (''ingest'', ''uploads/job-1.csv'') \<and>
   job_attr (snd (processor_handler simple_env (clock ''2024-01-03'') world_completed
                    [\<lparr>msg_jobId = ''job-1'', msg_bucket = ''ingest'',
                       msg_key = ''uploads/job-1.csv''\<rparr>]))
     ''job-1'' ''status'' = Some (S ''COMPLETED'') \<and>
   objects (snd (processor_handler simple_env (clock ''2024-01-03'') world_completed
                    [\<lparr>msg_jobId = ''job-1'', msg_bucket = ''ingest'',
                       msg_key = ''uploads/job-1.csv''\<rparr>])) =
     objects world_completed"
proof -
  have same: "objects world_completed (''ingest'', ''uploads/job-1.csv'') =
     objects world_validated (''ingest'', ''uploads/job-1.csv'')"
    by simp
  have w1: "snd (processor_handler simple_env (clock ''2024-01-02'') world_validated
              [\<lparr>msg_jobId = ''job-1'', msg_bucket = ''ingest'', msg_key = ''uploads/job-1.csv''\<rparr>]) =
            world_completed"
    by (simp add: world_completed_def upload_message_def)
  show ?thesis
    using redelivery_idempotent [of simple_env "clock ''2024-01-02''" world_validated
        "\<lparr>msg_jobId = ''job-1'', msg_bucket = ''ingest'', msg_key = ''uploads/job-1.csv''\<rparr>" "[]"
        "clock ''2024-01-03''"]
      same world_completed_record(1)
    unfolding w1
    by simp
qed

text \<open>
  C6. The conversion depends on nothing but the text it is given. Take two runs of the
  monolithic handler on the same event, in two worlds, with two clocks and two generated
  UUIDs, that fetch the same text (or fail to fetch in the same way) and see the same
  service outages: both return the same dictionary (so the same \<open>rowCount\<close> and
  \<open>errorCount\<close>), both record the same \<open>rowCount\<close>, \<open>errorCount\<close> and status, and either
  neither writes an object or both write the same records to \<open>output.json\<close>. The same
  holds for two runs of the Converter on the same message.
\<close>

theorem conversion_deterministic:
  assumes o: "outage w1 = outage w2"
    and k: "truthy (ev_key E ev)"
    and g: "get_object w1 (py_str (ev_bucket E ev)) (py_str (ev_key E ev)) =
            get_object w2 (py_str (ev_bucket E ev)) (py_str (ev_key E ev))"
    and g': "get_object w1 (msg_bucket m) (msg_key m) = get_object w2 (msg_bucket m) (msg_key m)"
  shows "fst (validator_processor_handler E now1 u1 w1 ev) =
         fst (validator_processor_handler E now2 u2 w2 ev)
       \<and> (StatusStore \<notin> outage w1 \<longrightarrow>
            job_attr (snd (validator_processor_handler E now1 u1 w1 ev))
                (job_id_of_key (py_str (ev_key E ev))) ''rowCount'' =
              job_attr (snd (validator_processor_handler E now2 u2 w2 ev))
                (job_id_of_key (py_str (ev_key E ev))) ''rowCount'' \<and>
            job_attr (snd (validator_processor_handler E now1 u1 w1 ev))
                (job_id_of_key (py_str (ev_key E ev))) ''errorCount'' =
              job_attr (snd (validator_processor_handler E now2 u2 w2 ev))
                (job_id_of_key (py_str (ev_key E ev))) ''errorCount'' \<and>
            job_attr (snd (validator_processor_handler E now1 u1 w1 ev))
                (job_id_of_key (py_str (ev_key E ev))) ''status'' =
              job_attr (snd (validator_processor_handler E now2 u2 w2 ev))
                (job_id_of_key (py_str (ev_key E ev))) ''status'')
       \<and> ((objects (snd (validator_processor_handler E now1 u1 w1 ev)) = objects w1 \<and>
            objects (snd (validator_processor_handler E now2 u2 w2 ev)) = objects w2) \<or>
           (\<exists>body.
              objects (snd (validator_processor_handler E now1 u1 w1 ev)) =
                (objects w1)((py_str (ev_bucket E ev),
                   PROCESSED_PREFIX E @ job_id_of_key (py_str (ev_key E ev)) @ ''/output.json'')
                   \<mapsto> Content body) \<and>
              objects (snd (validator_processor_handler E now2 u2 w2 ev)) =
                (objects w2)((py_str (ev_bucket E ev),
                   PROCESSED_PREFIX E @ job_id_of_key (py_str (ev_key E ev)) @ ''/output.json'')
                   \<mapsto> Content body)))
       \<and> fst (processor_handler E now1 w1 (m # ms)) = fst (processor_handler E now2 w2 (m # ms))
       \<and> ((objects (snd (processor_handler E now1 w1 (m # ms))) = objects w1 \<and>
            objects (snd (processor_handler E now2 w2 (m # ms))) = objects w2) \<or>
           (\<exists>body.
              objects (snd (processor_handler E now1 w1 (m # ms))) =
                (objects w1)((msg_bucket m, PROCESSED_PREFIX E @ msg_jobId m @ ''/output.json'')
                   \<mapsto> Content body) \<and>
              objects (snd (processor_handler E now2 w2 (m # ms))) =
                (objects w2)((msg_bucket m, PROCESSED_PREFIX E @ msg_jobId m @ ''/output.json'')
                   \<mapsto> Content body) \<and>
              job_attr (snd (processor_handler E now1 w1 (m # ms))) (msg_jobId m) ''rowCount'' =
                job_attr (snd (processor_handler E now2 w2 (m # ms))) (msg_jobId m) ''rowCount'' \<and>
              job_attr (snd (processor_handler E now1 w1 (m # ms))) (msg_jobId m) ''errorCount'' =
                job_attr (snd (processor_handler E now2 w2 (m # ms))) (msg_jobId m) ''errorCount''))"
proof -
  let ?vp1 = "validator_processor_handler E now1 u1 w1 ev"
  let ?vp2 = "validator_processor_handler E now2 u2 w2 ev"
  let ?j = "job_id_of_key (py_str (ev_key E ev))"
  let ?out = "(py_str (ev_bucket E ev), PROCESSED_PREFIX E @ ?j @ ''/output.json'')"
  note jid = vp_job_id_key [OF k]
  have monolith: "fst ?vp1 = fst ?vp2
       \<and> (StatusStore \<notin> outage w1 \<longrightarrow>
            job_attr (snd ?vp1) ?j ''rowCount'' = job_attr (snd ?vp2) ?j ''rowCount'' \<and>
            job_attr (snd ?vp1) ?j ''errorCount'' = job_attr (snd ?vp2) ?j ''errorCount'' \<and>
            job_attr (snd ?vp1) ?j ''status'' = job_attr (snd ?vp2) ?j ''status'')
       \<and> ((objects (snd ?vp1) = objects w1 \<and> objects (snd ?vp2) = objects w2) \<or>
           (\<exists>body. objects (snd ?vp1) = (objects w1)(?out \<mapsto> Content body) \<and>
                    objects (snd ?vp2) = (objects w2)(?out \<mapsto> Content body)))"
  proof (cases "StatusStore \<in> outage w1")
    case True
    then have d2: "StatusStore \<in> outage w2" using o by simp
    show ?thesis
      using True by (simp add: vp_store_down [OF True] vp_store_down [OF d2])
  next
    case up1: False
    then have up2: "StatusStore \<notin> outage w2" using o by simp
    show ?thesis
    proof (cases "py_not (ev_bucket E ev) \<or> py_not (ev_key E ev)")
      case True
      note r1 = vp_invalid_payload [OF up1 True, of now1 u1]
      note r2 = vp_invalid_payload [OF up2 True, of now2 u2]
      show ?thesis
        by (simp only: r1 r2 fst_conv snd_conv jid)
           (simp add: job_attr_commit set_attrs_def write_defs)
    next
      case False
      then have b: "truthy (ev_bucket E ev)" by (simp add: py_not_def)
      show ?thesis
      proof (cases "get_object w1 (py_str (ev_bucket E ev)) (py_str (ev_key E ev))")
        case (Inl e)
        then have f2: "get_object w2 (py_str (ev_bucket E ev)) (py_str (ev_key E ev)) = Inl e"
          using g by simp
        note r1 = vp_fetch_failed [OF up1 b k Inl, of now1 u1]
        note r2 = vp_fetch_failed [OF up2 b k f2, of now2 u2]
        show ?thesis
          by (simp only: r1 r2 fst_conv snd_conv jid)
             (simp add: job_attr_commit set_attrs_def write_defs)
      next
        case c1: (Inr body)
        then have c2: "get_object w2 (py_str (ev_bucket E ev)) (py_str (ev_key E ev)) = Inr body"
          using g by simp
        show ?thesis
        proof (cases "validate_and_process_csv E body")
          case (Inl e)
          note r1 = vp_processing_error [OF up1 b k c1 Inl, of now1 u1]
          note r2 = vp_processing_error [OF up2 b k c2 Inl, of now2 u2]
          show ?thesis
            by (simp only: r1 r2 fst_conv snd_conv jid)
               (simp add: job_attr_commit set_attrs_def write_defs)
        next
          case r: (Inr result)
          show ?thesis
          proof (cases "res_row_count result > 0 \<and> res_records result \<noteq> []")
            case False
            note r1 = vp_unwritten [OF up1 b k c1 r False, of now1 u1]
            note r2 = vp_unwritten [OF up2 b k c2 r False, of now2 u2]
            show ?thesis
              by (simp only: r1 r2 fst_conv snd_conv jid)
                 (simp add: job_attr_commit set_attrs_def write_defs)
          next
            case True
            then have p: "res_row_count result > 0" and q: "res_records result \<noteq> []"
              by simp_all
            show ?thesis
            proof (cases "ObjectWrite \<in> outage w1")
              case d1: True
              then have d2: "ObjectWrite \<in> outage w2" using o by simp
              note r1 = vp_put_denied [OF up1 b k c1 r p q d1, of now1 u1]
              note r2 = vp_put_denied [OF up2 b k c2 r p q d2, of now2 u2]
              show ?thesis
                by (simp only: r1 r2 fst_conv snd_conv jid)
                   (simp add: job_attr_commit set_attrs_def write_defs)
            next
              case a1: False
              then have a2: "ObjectWrite \<notin> outage w2" using o by simp
              note r1 = vp_written [OF up1 b k c1 r p q a1, of now1 u1]
              note r2 = vp_written [OF up2 b k c2 r p q a2, of now2 u2]
              show ?thesis
                apply (simp only: r1 r2 fst_conv snd_conv jid)
                apply (simp add: job_attr_commit set_attrs_def write_defs)
                apply (rule disjI2)
                apply (rule exI [of _ "json_dumps E None (res_records result)"])
                apply simp
                done
            qed
          qed
        qed
      qed
    qed
  qed
  let ?p1 = "processor_handler E now1 w1 (m # ms)"
  let ?p2 = "processor_handler E now2 w2 (m # ms)"
  let ?pout = "(msg_bucket m, PROCESSED_PREFIX E @ msg_jobId m @ ''/output.json'')"
  have converter: "fst ?p1 = fst ?p2
       \<and> ((objects (snd ?p1) = objects w1 \<and> objects (snd ?p2) = objects w2) \<or>
           (\<exists>body. objects (snd ?p1) = (objects w1)(?pout \<mapsto> Content body) \<and>
                    objects (snd ?p2) = (objects w2)(?pout \<mapsto> Content body) \<and>
              job_attr (snd ?p1) (msg_jobId m) ''rowCount'' =
                job_attr (snd ?p2) (msg_jobId m) ''rowCount'' \<and>
              job_attr (snd ?p1) (msg_jobId m) ''errorCount'' =
                job_attr (snd ?p2) (msg_jobId m) ''errorCount''))"
  proof (cases "StatusStore \<in> outage w1")
    case True
    then have d2: "StatusStore \<in> outage w2" using o by simp
    show ?thesis
      by (simp add: processor_store_down [OF True] processor_store_down [OF d2])
  next
    case up1: False
    then have up2: "StatusStore \<notin> outage w2" using o by simp
    show ?thesis
    proof (cases "get_object w1 (msg_bucket m) (msg_key m)")
      case (Inl e)
      then have f2: "get_object w2 (msg_bucket m) (msg_key m) = Inl e" using g' by simp
      note r1 = processor_fetch_failed [OF up1 Inl, of E now1 ms]
      note r2 = processor_fetch_failed [OF up2 f2, of E now2 ms]
      show ?thesis
        by (simp only: r1 r2 fst_conv snd_conv) simp
    next
      case c1: (Inr content)
      then have c2: "get_object w2 (msg_bucket m) (msg_key m) = Inr content" using g' by simp
      show ?thesis
      proof (cases "snd (csv_reader E content)")
        case (Some e)
        note r1 = processor_csv_error [OF up1 c1 Some, of now1 ms]
        note r2 = processor_csv_error [OF up2 c2 Some, of now2 ms]
        show ?thesis
          by (simp only: r1 r2 fst_conv snd_conv) simp
      next
        case None
        show ?thesis
        proof (cases "ObjectWrite \<in> outage w1")
          case d1: True
          then have d2: "ObjectWrite \<in> outage w2" using o by simp
          note r1 = processor_put_denied [OF up1 c1 None d1, of now1 ms]
          note r2 = processor_put_denied [OF up2 c2 None d2, of now2 ms]
          show ?thesis
            by (simp only: r1 r2 fst_conv snd_conv) simp
        next
          case a1: False
          then have a2: "ObjectWrite \<notin> outage w2" using o by simp
          note r1 = processor_completed [OF up1 c1 None a1, of now1 ms]
          note r2 = processor_completed [OF up2 c2 None a2, of now2 ms]
          show ?thesis
            apply (simp only: r1 r2 fst_conv snd_conv)
            apply (rule conjI)
             apply simp
            apply (rule disjI2)
            apply (rule exI [of _ "json_dumps E (Some 2) (converted E content)"])
            apply (simp add: job_attr_update2_other set_attrs_def write_defs)
            done
        qed
      qed
    qed
  qed
  show ?thesis
    using monolith converter by simp
qed

theorem conversion_deterministic_witness:
  "outage (upload_world (Content sample_csv)) = outage world_completed \<and>
   truthy (ev_key simple_env upload_event) \<and>
   get_object (upload_world (Content sample_csv)) ''ingest'' ''uploads/job-1.csv'' =
     get_object world_completed ''ingest'' ''uploads/job-1.csv'' \<and>
   fst (validator_processor_handler simple_env (clock ''2024-01-01'') ''uuid-1''
          (upload_world (Content sample_csv)) upload_event) =
   fst (validator_processor_handler simple_env (clock ''2024-02-02'') ''uuid-2''
          world_completed upload_event)"
proof -
  have o: "outage (upload_world (Content sample_csv)) = outage world_completed"
    by simp
  have k: "truthy (ev_key simple_env upload_event)"
    by (simp add: upload_event_extract)
  have g: "get_object (upload_world (Content sample_csv)) ''ingest'' ''uploads/job-1.csv'' =
     get_object world_completed ''ingest'' ''uploads/job-1.csv''"
    by (simp add: upload_get_object world_completed_get)
  have g1: "get_object (upload_world (Content sample_csv))
              (py_str (ev_bucket simple_env upload_event)) (py_str (ev_key simple_env upload_event)) =
            get_object world_completed
              (py_str (ev_bucket simple_env upload_event)) (py_str (ev_key simple_env upload_event))"
    using g by (simp add: upload_event_extract)
  have g2: "get_object (upload_world (Content sample_csv))
              (msg_bucket \<lparr>msg_jobId = ''job-1'', msg_bucket = ''ingest'', msg_key = ''uploads/job-1.csv''\<rparr>)
              (msg_key \<lparr>msg_jobId = ''job-1'', msg_bucket = ''ingest'', msg_key = ''uploads/job-1.csv''\<rparr>) =
            get_object world_completed
              (msg_bucket \<lparr>msg_jobId = ''job-1'', msg_bucket = ''ingest'', msg_key = ''uploads/job-1.csv''\<rparr>)
              (msg_key \<lparr>msg_jobId = ''job-1'', msg_bucket = ''ingest'', msg_key = ''uploads/job-1.csv''\<rparr>)"
    using g by simp
  show ?thesis
    using conversion_deterministic [OF o k g1 g2, of "clock ''2024-01-01''" "''uuid-1''"
        "clock ''2024-02-02''" "''uuid-2''" "[]"] o k g
    by simp
qed

end
